theory Spec2Isabelle
  imports Main "HOL-Library.Sublist"
begin

section \<open>JavaScript strings and values\<close>

text \<open>
  A string of the handlers is modelled by its UTF-8 bytes, as a \<^typ>\<open>string\<close> (a lone
  surrogate, which JSON can carry, by the three bytes of its code point). Every keyword,
  status name and section header the handlers search for is ASCII, and UTF-8 is
  self-synchronising, so a substring test on the bytes is the substring test of the
  source.
\<close>

definition is_ascii :: "char \<Rightarrow> bool" where
  "is_ascii c = (\<not> digit7 c)"

text \<open>
  \<open>s.length\<close> counts UTF-16 code units: one for every code point, that is for every byte
  that is not a continuation byte, and one more for every code point outside the basic
  plane, which starts with a byte \<open>11110xxx\<close>.
\<close>

definition is_continuation :: "char \<Rightarrow> bool" where
  "is_continuation c = (digit7 c \<and> \<not> digit6 c)"

definition is_lead4 :: "char \<Rightarrow> bool" where
  "is_lead4 c = (digit7 c \<and> digit6 c \<and> digit5 c \<and> digit4 c)"

definition js_length :: "string \<Rightarrow> nat" where
  "js_length s = length (filter (\<lambda>c. \<not> is_continuation c) s) + length (filter is_lead4 s)"

text \<open>
  \<open>s.toLowerCase()\<close> maps every code point by the Unicode tables of the runtime. On ASCII
  it folds \<open>A\<close> to \<open>Z\<close> and leaves the rest. What it does to the code points outside
  ASCII is a parameter: \<open>lower before run after\<close> is the lower-case form of the maximal
  run \<open>run\<close> of bytes outside ASCII that stands between \<open>before\<close> and \<open>after\<close> in the
  string (the form may depend on the context, as for the final sigma, and may be ASCII,
  as for the Kelvin sign, which becomes \<open>k\<close>).
\<close>

type_synonym unicode_lower = "string \<Rightarrow> string \<Rightarrow> string \<Rightarrow> string"

definition lower_char :: "char \<Rightarrow> char" where
  "lower_char c =
     (case map_of (zip ''ABCDEFGHIJKLMNOPQRSTUVWXYZ'' ''abcdefghijklmnopqrstuvwxyz'') c of
        Some l \<Rightarrow> l
      | None \<Rightarrow> c)"

text \<open>\<open>lower_from lower before run s\<close>: the string read so far, the run of bytes outside
  ASCII that is open, and what is left to read.\<close>

fun lower_from :: "unicode_lower \<Rightarrow> string \<Rightarrow> string \<Rightarrow> string \<Rightarrow> string" where
  "lower_from lower before run [] = (if run = [] then [] else lower before run [])"
| "lower_from lower before run (c # cs) =
     (if is_ascii c then
        (if run = [] then [] else lower before run (c # cs))
        @ lower_char c # lower_from lower (before @ run @ [c]) [] cs
      else lower_from lower before (run @ [c]) cs)"

definition toLowerCase :: "unicode_lower \<Rightarrow> string \<Rightarrow> string" where
  "toLowerCase lower s = lower_from lower [] [] s"

text \<open>No lower-case form holds an ASCII capital: a property of the runtime's tables.\<close>

definition is_upper :: "char \<Rightarrow> bool" where
  "is_upper c = (c \<in> set ''ABCDEFGHIJKLMNOPQRSTUVWXYZ'')"

definition no_capitals :: "unicode_lower \<Rightarrow> bool" where
  "no_capitals lower =
     (\<forall>before run after. \<forall>c \<in> set (lower before run after). \<not> is_upper c)"

text \<open>\<open>s.includes(sub)\<close>: \<open>sub\<close> occurs in \<open>s\<close> as a contiguous substring.\<close>

fun js_includes :: "string \<Rightarrow> string \<Rightarrow> bool" where
  "js_includes [] sub = (sub = [])"
| "js_includes (c # cs) sub = (prefix sub (c # cs) \<or> js_includes cs sub)"

text \<open>
  The white space of \<open>trim\<close> and of \<open>\s\<close>: tab, line feed, vertical tab, form feed,
  carriage return, space, U+00A0, U+1680, U+2000 to U+200A, U+2028, U+2029, U+202F,
  U+205F, U+3000 and U+FEFF, each by its UTF-8 bytes.
\<close>

definition whitespace :: "string list" where
  "whitespace =
     [[CHR 0x09], [CHR 0x0A], [CHR 0x0B], [CHR 0x0C], [CHR 0x0D], [CHR 0x20],
      [CHR 0xC2, CHR 0xA0],
      [CHR 0xE1, CHR 0x9A, CHR 0x80],
      [CHR 0xE2, CHR 0x80, CHR 0x80], [CHR 0xE2, CHR 0x80, CHR 0x81],
      [CHR 0xE2, CHR 0x80, CHR 0x82], [CHR 0xE2, CHR 0x80, CHR 0x83],
      [CHR 0xE2, CHR 0x80, CHR 0x84], [CHR 0xE2, CHR 0x80, CHR 0x85],
      [CHR 0xE2, CHR 0x80, CHR 0x86], [CHR 0xE2, CHR 0x80, CHR 0x87],
      [CHR 0xE2, CHR 0x80, CHR 0x88], [CHR 0xE2, CHR 0x80, CHR 0x89],
      [CHR 0xE2, CHR 0x80, CHR 0x8A],
      [CHR 0xE2, CHR 0x80, CHR 0xA8], [CHR 0xE2, CHR 0x80, CHR 0xA9],
      [CHR 0xE2, CHR 0x80, CHR 0xAF],
      [CHR 0xE2, CHR 0x81, CHR 0x9F],
      [CHR 0xE3, CHR 0x80, CHR 0x80],
      [CHR 0xEF, CHR 0xBB, CHR 0xBF]]"

text \<open>Whether the string starts with one of the given sequences, and what is left of it
  without that sequence.\<close>

definition starts_with_any :: "string list \<Rightarrow> string \<Rightarrow> bool" where
  "starts_with_any seqs s = (\<exists>w \<in> set seqs. w \<noteq> [] \<and> prefix w s)"

definition drop_first :: "string list \<Rightarrow> string \<Rightarrow> string" where
  "drop_first seqs s =
     (case find (\<lambda>w. w \<noteq> [] \<and> prefix w s) seqs of
        None \<Rightarrow> s
      | Some w \<Rightarrow> drop (length w) s)"

function strip_leading :: "string list \<Rightarrow> string \<Rightarrow> string" where
  "strip_leading seqs s =
     (if starts_with_any seqs s then strip_leading seqs (drop_first seqs s) else s)"
  by pat_completeness auto
termination
proof (relation "measure (\<lambda>(seqs, s). length s)")
  show "wf (measure (\<lambda>(seqs, s). length s))" by simp
next
  fix seqs :: "string list" and s :: string
  assume "starts_with_any seqs s"
  then obtain w where "w \<in> set seqs" "w \<noteq> []" "prefix w s"
    by (auto simp: starts_with_any_def)
  then have "find (\<lambda>w. w \<noteq> [] \<and> prefix w s) seqs \<noteq> None"
    by (auto simp: find_None_iff)
  then obtain v where v: "find (\<lambda>w. w \<noteq> [] \<and> prefix w s) seqs = Some v"
    by auto
  then have "v \<noteq> []" "prefix v s"
    by (auto dest: find_Some_iff [THEN iffD1])
  then have "length (drop (length v) s) < length s"
    by (cases s; cases v) (auto simp: prefix_def)
  with v show "((seqs, drop_first seqs s), (seqs, s)) \<in> measure (\<lambda>(seqs, s). length s)"
    by (simp add: drop_first_def)
qed

text \<open>\<open>s.trim()\<close>\<close>

definition trim :: "string \<Rightarrow> string" where
  "trim s = rev (strip_leading (map rev whitespace) (rev (strip_leading whitespace s)))"

text \<open>\<open>s.split(/\s+/)[0]\<close> for a string that does not start with white space: the
  string up to its first white space.\<close>

fun first_token :: "string \<Rightarrow> string" where
  "first_token [] = []"
| "first_token (c # cs) =
     (if starts_with_any whitespace (c # cs) then [] else c # first_token cs)"

text \<open>
  The values an expression of the webhook can evaluate to: a string, \<open>undefined\<close>, or a
  property inherited from \<open>Object.prototype\<close> (a function or an object, named by its key).
\<close>

datatype js_value = JString string | JInherited string | JUndefined

text \<open>\<open>v || d\<close> keeps \<open>v\<close> when it is truthy: every function and object is, the empty
  string and \<open>undefined\<close> are not.\<close>

fun truthy :: "js_value \<Rightarrow> bool" where
  "truthy (JString s) = (s \<noteq> [])"
| "truthy (JInherited k) = True"
| "truthy JUndefined = False"

text \<open>
  The keys every object literal inherits from \<open>Object.prototype\<close>. A property read
  \<open>obj[k]\<close> on an object literal returns the own property \<open>k\<close> when there is one, the
  inherited property when \<open>k\<close> is one of these keys, and \<open>undefined\<close> otherwise.
\<close>

definition object_prototype_keys :: "string list" where
  "object_prototype_keys =
     [''constructor'', ''__defineGetter__'', ''__defineSetter__'', ''hasOwnProperty'',
      ''__lookupGetter__'', ''__lookupSetter__'', ''isPrototypeOf'', ''propertyIsEnumerable'',
      ''toString'', ''valueOf'', ''__proto__'', ''toLocaleString'']"

definition object_get :: "(string \<times> string) list \<Rightarrow> string \<Rightarrow> js_value" where
  "object_get own k =
     (case map_of own k of
        Some v \<Rightarrow> JString v
      | None \<Rightarrow> if k \<in> set object_prototype_keys then JInherited k else JUndefined)"

text \<open>
  A parsed JSON value. An object is the list of its members; a number is kept as it is
  written, its value plays no part.
\<close>

datatype json =
    JsonNull
  | JsonBool bool
  | JsonNumber string
  | JsonString string
  | JsonArray "json list"
  | JsonObject "(string \<times> json) list"

text \<open>\<open>obj[key]\<close> of a parsed JSON object: \<open>None\<close> is \<open>undefined\<close>.\<close>

definition member :: "(string \<times> json) list \<Rightarrow> string \<Rightarrow> json option" where
  "member obj key = map_of obj key"

section \<open>Telephony webhook (POST /api/calls/webhook)\<close>

subsection \<open>mapTwilioStatus\<close>

definition statusMap :: "(string \<times> string) list" where
  "statusMap =
     [(''ringing'', ''RINGING''),
      (''in-progress'', ''ANSWERED''),
      (''completed'', ''COMPLETED''),
      (''busy'', ''BUSY''),
      (''no-answer'', ''NO_ANSWER''),
      (''failed'', ''FAILED''),
      (''canceled'', ''FAILED'')]"

text \<open>\<open>return statusMap[status.toLowerCase()] || 'RINGING'\<close>\<close>

definition mapTwilioStatus :: "unicode_lower \<Rightarrow> string \<Rightarrow> js_value" where
  "mapTwilioStatus lower status =
     (let v = object_get statusMap (toLowerCase lower status)
      in if truthy v then v else JString ''RINGING'')"

subsection \<open>The handler\<close>

text \<open>
  The call table is explicit state. A row of \<open>aICall\<close> carries the fields the handler
  writes; \<open>formData.get\<close> returns \<open>null\<close> for a missing field, which is \<open>None\<close> here.
\<close>

record call_row =
  call_id :: string
  phoneNumber :: "string option"
  direction :: string
  call_status :: js_value
  twilioCallSid :: "string option"
  twilioAccountSid :: "string option"
  handledByAI :: bool
  call_tenantId :: string
  answeredAt :: "nat option"
  endedAt :: "nat option"

datatype db_call = CallFindUnique "string option" | CallCreate call_row | CallUpdate string

text \<open>
  What the handler does not decide: whether the body parses as form data, which calls
  the persistence layer rejects (a rejected call throws, and the handler's \<open>catch\<close>
  answers 500), the identifier it gives a new row, the clock, and the lower-case tables
  of the runtime. A missing
  \<open>CallStatus\<close> makes \<open>status.toLowerCase()\<close> throw while the data of the write is
  built, before the persistence layer is called.
\<close>

record webhook_world =
  formData :: "(string \<rightharpoonup> string) option"
  db_throws :: "db_call \<Rightarrow> bool"
  new_id :: string
  now :: nat
  wh_lower :: unicode_lower

datatype webhook_response = TwiML | JsonSuccess | Error500

definition respond :: "string \<Rightarrow> webhook_response" where
  "respond callStatus =
     (if callStatus = ''ringing'' \<or> callStatus = ''in-progress'' then TwiML else JsonSuccess)"

definition webhook_POST ::
  "webhook_world \<Rightarrow> call_row list \<Rightarrow> webhook_response \<times> call_row list" where
  "webhook_POST w calls =
     (case formData w of
        None \<Rightarrow> (Error500, calls)
      | Some form \<Rightarrow>
          let callSid = form ''CallSid'';
              callStatus = form ''CallStatus'';
              from = form ''From'';
              to = form ''To'';
              dir = form ''Direction''
          in if db_throws w (CallFindUnique callSid) then (Error500, calls)
             else
               (case find (\<lambda>r. twilioCallSid r = callSid) calls of
                  None \<Rightarrow>
                    (case callStatus of
                       None \<Rightarrow> (Error500, calls)
                     | Some st \<Rightarrow>
                         let row =
                           \<lparr>call_id = new_id w,
                            phoneNumber = (if dir = Some ''inbound'' then from else to),
                            direction = (if dir = Some ''inbound'' then ''INBOUND'' else ''OUTBOUND''),
                            call_status = mapTwilioStatus (wh_lower w) st,
                            twilioCallSid = callSid,
                            twilioAccountSid = form ''AccountSid'',
                            handledByAI = True,
                            call_tenantId = ''default'',
                            answeredAt = None,
                            endedAt = None\<rparr>
                         in if db_throws w (CallCreate row) then (Error500, calls)
                            else (respond st, calls @ [row]))
                | Some call \<Rightarrow>
                    (case callStatus of
                       None \<Rightarrow> (Error500, calls)
                     | Some st \<Rightarrow>
                         if db_throws w (CallUpdate (call_id call)) then (Error500, calls)
                         else
                           (respond st,
                            map (\<lambda>r. if call_id r = call_id call
                                      then r\<lparr>call_status := mapTwilioStatus (wh_lower w) st,
                                             answeredAt := (if st = ''in-progress'' then Some (now w)
                                                            else answeredAt call),
                                             endedAt := (if st = ''completed'' then Some (now w)
                                                         else endedAt call)\<rparr>
                                      else r) calls))))"

text \<open>A callback for a call id the table does not hold yet: an inbound call that rings.\<close>

definition ringing_form :: "string \<rightharpoonup> string" where
  "ringing_form =
     [''CallSid'' \<mapsto> ''CA1'', ''CallStatus'' \<mapsto> ''ringing'', ''From'' \<mapsto> ''+911'',
      ''To'' \<mapsto> ''+912'', ''Direction'' \<mapsto> ''inbound'']"

definition ringing_world :: webhook_world where
  "ringing_world =
     \<lparr>formData = Some ringing_form, db_throws = (\<lambda>c. False), new_id = ''id1'', now = 0,
      wh_lower = (\<lambda>before run after. run)\<rparr>"

section \<open>AI chat (POST /api/ai/chat)\<close>

subsection \<open>String operations of the handler\<close>

definition is_digit :: "char \<Rightarrow> bool" where
  "is_digit c = (c \<in> set ''0123456789'')"

definition nl :: string where
  "nl = [CHR 0x0A]"

text \<open>\<open>s.split('\n')\<close>; the empty string splits into one empty line.\<close>

fun split_lines :: "string \<Rightarrow> string list" where
  "split_lines [] = [[]]"
| "split_lines (c # cs) =
     (if c = CHR 0x0A then [] # split_lines cs
      else (case split_lines cs of
              [] \<Rightarrow> [[c]]
            | l # ls \<Rightarrow> (c # l) # ls))"

text \<open>\<open>xs.join(sep)\<close>\<close>

fun join :: "string \<Rightarrow> string list \<Rightarrow> string" where
  "join sep [] = []"
| "join sep [x] = x"
| "join sep (x # y # ys) = x @ sep @ join sep (y # ys)"

text \<open>\<open>/^\d+\./.test(s)\<close>: one or more digits at the start, then a dot.\<close>

definition starts_numbered :: "string \<Rightarrow> bool" where
  "starts_numbered s = (takeWhile is_digit s \<noteq> [] \<and> prefix ''.'' (dropWhile is_digit s))"

text \<open>The rupee sign, U+20B9, in UTF-8.\<close>

definition rupee :: string where
  "rupee = [CHR 0xE2, CHR 0x82, CHR 0xB9]"

subsection \<open>Regular expressions\<close>

text \<open>
  The regular expressions the handler passes to \<open>String.prototype.match\<close>, in the order
  they appear in the source:
  \<^item> \<open>NameAfterPreposition\<close>:
    \<^verbatim>\<open>/(?:for|with|to|about)\s+([A-Z][a-zA-Z\s&]+?)(?:\s|$|proposal|quote|deal|contract)/i\<close>
  \<^item> \<open>NameAfterDocument\<close>:
    \<^verbatim>\<open>/(?:proposal|quote|deal|contract)\s+(?:for|with|to)\s+([A-Z][a-zA-Z\s&]+?)(?:\s|$)/i\<close>
  \<^item> \<open>NameBeforeDocument\<close>:
    \<^verbatim>\<open>/([A-Z][a-zA-Z\s&]{2,}?)(?:\s+proposal|\s+quote|\s+deal)/i\<close>
  \<^item> \<open>ActiveDealsSection\<close>:
    \<^verbatim>\<open>/ACTIVE DEALS \(([^)]+)\):([\s\S]*?)(?=PENDING INVOICES|=== END)/\<close>
  \<^item> \<open>PendingTasksSection\<close>:
    \<^verbatim>\<open>/PENDING TASKS \(([^)]+)\):([\s\S]*?)(?=ACTIVE DEALS|PENDING INVOICES|=== END)/\<close>
  \<^item> \<open>OverdueInvoicesSection\<close>:
    \<^verbatim>\<open>/OVERDUE INVOICES \(([^)]+)\):([\s\S]*?)(?=PENDING TASKS|ACTIVE DEALS|=== END)/\<close>
  \<^item> \<open>RevenueAmount\<close>: \<^verbatim>\<open>/Revenue \(Last 30 Days\): R([\d,]+)/\<close> (with the rupee sign for \<open>R\<close>,
    before the group).

  The matcher is the runtime's: \<open>match\<close> is a parameter that returns \<open>None\<close> when the
  expression does not match (\<open>null\<close>) and the capture groups of the first match
  otherwise. \<open>group k\<close> reads capture group \<open>k\<close>; a group that is not there reads as the
  empty string, which the handler treats like \<open>undefined\<close> (both are falsy where it tests
  the group).
\<close>

datatype regex =
    NameAfterPreposition | NameAfterDocument | NameBeforeDocument
  | ActiveDealsSection | PendingTasksSection | OverdueInvoicesSection | RevenueAmount

type_synonym regex_engine = "regex \<Rightarrow> string \<Rightarrow> string list option"

definition group :: "nat \<Rightarrow> string list \<Rightarrow> string" where
  "group k gs = (if 1 \<le> k \<and> k \<le> length gs then gs ! (k - 1) else [])"

subsection \<open>getHelpfulResponse: the rule-based responder\<close>

text \<open>
  \<open>text.split('\n').filter(line => line.trim() && /^\d+\./.test(line.trim())).slice(0, 5)\<close>
\<close>

definition numbered_lines :: "string \<Rightarrow> string list" where
  "numbered_lines text =
     take 5 (filter (\<lambda>line. trim line \<noteq> [] \<and> starts_numbered (trim line)) (split_lines text))"

definition default_response :: string where
  "default_response =
     ''I'm having trouble connecting to the AI service right now. '' @ nl @ nl @
     ''To enable full AI capabilities, please ensure your API keys are configured in the .env file:'' @ nl @
     ''- GROQ_API_KEY (recommended - fastest)'' @ nl @
     ''- OLLAMA_API_KEY (or local Ollama running)'' @ nl @
     ''- OPENAI_API_KEY (optional fallback)'' @ nl @ nl @
     ''Once configured, I'll be able to provide specific answers based on your actual business data.'' @ nl @ nl @
     ''For now, you can:'' @ nl @
     ''- Check the Dashboard for overview statistics'' @ nl @
     ''- Use the navigation menu to access specific modules'' @ nl @
     ''- View detailed information in each section''"

definition getHelpfulResponse ::
  "unicode_lower \<Rightarrow> regex_engine \<Rightarrow> string \<Rightarrow> string \<Rightarrow> string" where
  "getHelpfulResponse lower match query businessContext =
     (let lowerQuery = toLowerCase lower query;
          dealsText = (case match ActiveDealsSection businessContext of
                         Some gs \<Rightarrow> group 2 gs | None \<Rightarrow> []);
          tasksText = (case match PendingTasksSection businessContext of
                         Some gs \<Rightarrow> group 2 gs | None \<Rightarrow> []);
          invoicesText = (case match OverdueInvoicesSection businessContext of
                            Some gs \<Rightarrow> group 2 gs | None \<Rightarrow> []);
          revenue = (case match RevenueAmount businessContext of
                       Some gs \<Rightarrow> group 1 gs | None \<Rightarrow> [])
      in
      if js_includes lowerQuery ''deal'' \<or> js_includes lowerQuery ''top deal''
           \<or> js_includes lowerQuery ''best deal'' then
        (if dealsText \<noteq> [] \<and> trim dealsText \<noteq> [] \<and> \<not> js_includes dealsText ''None''
              \<and> numbered_lines dealsText \<noteq> [] then
           ''Here are your top deals:'' @ nl @ nl @ join nl (numbered_lines dealsText) @ nl @ nl @
           ''These are the highest value deals in your pipeline.''
         else ''I couldn't find active deals in your data. You can view all deals on the Deals page.'')
      else if js_includes lowerQuery ''task'' \<or> js_includes lowerQuery ''todo''
           \<or> js_includes lowerQuery ''attention'' then
        (if tasksText \<noteq> [] \<and> trim tasksText \<noteq> [] \<and> \<not> js_includes tasksText ''None''
              \<and> numbered_lines tasksText \<noteq> [] then
           ''Here are the tasks that need your attention:'' @ nl @ nl @
           join nl (numbered_lines tasksText) @ nl @ nl @
           ''These are prioritized by importance and due date.''
         else ''You currently have no pending tasks. Great job staying on top of things!'')
      else if js_includes lowerQuery ''invoice'' \<or> js_includes lowerQuery ''overdue'' then
        (if invoicesText \<noteq> [] \<and> trim invoicesText \<noteq> [] \<and> \<not> js_includes invoicesText ''None''
              \<and> numbered_lines invoicesText \<noteq> [] then
           ''Here are your overdue invoices:'' @ nl @ nl @
           join nl (numbered_lines invoicesText) @ nl @ nl @
           ''Please follow up with these customers to ensure timely payment.''
         else ''You have no overdue invoices. Excellent!'')
      else if js_includes lowerQuery ''revenue'' \<or> js_includes lowerQuery ''income''
           \<or> js_includes lowerQuery ''sales'' then
        (if revenue \<noteq> [] then
           ''Your revenue for the last 30 days is '' @ rupee @ revenue @
           ''. For detailed financial reports, check the Accounting > Reports section.''
         else ''Revenue data is not available at the moment. Check the Dashboard or Accounting > Reports for financial information.'')
      else default_response)"

subsection \<open>The persistence layer\<close>

text \<open>
  A table is a list of rows, a row maps field names to values. A query names its table,
  its \<open>where\<close> conditions (all must hold), its \<open>orderBy\<close> keys and its \<open>take\<close>; the
  \<open>select\<close> projections are left out, the handler reads only fields it selects.
\<close>

datatype field_value = VStr string | VNum int | VNull | VList "string list"

type_synonym row = "string \<rightharpoonup> field_value"

datatype cond =
    Equals string field_value
  | In string "field_value list"
  | Contains string string
  | Gte string int
  | Or "cond list"

datatype direction = Asc | Desc

datatype query_kind = FindUnique | FindMany | Count

record query =
  q_kind :: query_kind
  q_model :: string
  q_where :: "cond list"
  q_orderBy :: "(string \<times> direction) list"
  q_take :: "nat option"

text \<open>
  \<open>Contains f term\<close> is \<open>{ contains: term, mode: 'insensitive' }\<close> on field \<open>f\<close>. When a
  string contains another without regard to case is the database's matter:
  \<open>contains\<close>, from the value and the term, is a parameter.
\<close>

fun holds :: "(string \<Rightarrow> string \<Rightarrow> bool) \<Rightarrow> cond \<Rightarrow> row \<Rightarrow> bool" where
  "holds contains (Equals f v) r = (r f = Some v)"
| "holds contains (In f vs) r = (case r f of Some v \<Rightarrow> v \<in> set vs | None \<Rightarrow> False)"
| "holds contains (Contains f term) r =
     (case r f of
        Some (VStr s) \<Rightarrow> contains s term
      | _ \<Rightarrow> False)"
| "holds contains (Gte f n) r = (case r f of Some (VNum m) \<Rightarrow> n \<le> m | _ \<Rightarrow> False)"
| "holds contains (Or cs) r = (\<exists>c \<in> set cs. holds contains c r)"

text \<open>
  The database decides how two values of a field compare (collation, placement of
  \<open>null\<close>): \<open>value_le\<close> is a parameter. Rows are ordered by insertion, key by key.
\<close>

fun row_le ::
  "(field_value option \<Rightarrow> field_value option \<Rightarrow> bool) \<Rightarrow> (string \<times> direction) list
   \<Rightarrow> row \<Rightarrow> row \<Rightarrow> bool" where
  "row_le le [] a b = True"
| "row_le le ((f, d) # ks) a b =
     (if a f = b f then row_le le ks a b
      else (case d of Asc \<Rightarrow> le (a f) (b f) | Desc \<Rightarrow> le (b f) (a f)))"

fun insert_row :: "(row \<Rightarrow> row \<Rightarrow> bool) \<Rightarrow> row \<Rightarrow> row list \<Rightarrow> row list" where
  "insert_row le x [] = [x]"
| "insert_row le x (y # ys) = (if le x y then x # y # ys else y # insert_row le x ys)"

definition order_rows :: "(row \<Rightarrow> row \<Rightarrow> bool) \<Rightarrow> row list \<Rightarrow> row list" where
  "order_rows le rows = foldr (insert_row le) rows []"

record database =
  tables :: "string \<Rightarrow> row list"
  value_le :: "field_value option \<Rightarrow> field_value option \<Rightarrow> bool"
  contains_insensitive :: "string \<Rightarrow> string \<Rightarrow> bool"
  query_throws :: "query \<Rightarrow> bool"

definition run :: "database \<Rightarrow> query \<Rightarrow> row list" where
  "run db q =
     (let matching = filter (\<lambda>r. \<forall>c \<in> set (q_where q). holds (contains_insensitive db) c r)
                            (tables db (q_model q));
          ordered = (if q_orderBy q = [] then matching
                     else order_rows (row_le (value_le db) (q_orderBy q)) matching)
      in case q_take q of None \<Rightarrow> ordered | Some n \<Rightarrow> take n ordered)"

datatype js_error = LicenseError | ZodError | OtherError string

text \<open>
  A step of an \<open>async\<close> function that awaits queries: the outcome so far and the queries
  issued, in order. \<open>exec\<close> awaits one query and goes on with its rows unless it throws;
  \<open>exec_all\<close> is \<open>Promise.all\<close> over queries that are all issued before any is awaited.
\<close>

type_synonym 'a db_result = "(js_error + 'a) \<times> query list"

definition exec :: "database \<Rightarrow> query \<Rightarrow> (row list \<Rightarrow> 'a db_result) \<Rightarrow> 'a db_result" where
  "exec db q k =
     (if query_throws db q then (Inl (OtherError ''query failed''), [q])
      else (case k (run db q) of (r, qs) \<Rightarrow> (r, q # qs)))"

definition exec_all ::
  "database \<Rightarrow> query list \<Rightarrow> (row list list \<Rightarrow> 'a db_result) \<Rightarrow> 'a db_result" where
  "exec_all db qs k =
     (if \<exists>q \<in> set qs. query_throws db q then (Inl (OtherError ''query failed''), qs)
      else (case k (map (run db) qs) of (r, qs') \<Rightarrow> (r, qs @ qs')))"

definition find_many :: "string \<Rightarrow> cond list \<Rightarrow> (string \<times> direction) list \<Rightarrow> nat option \<Rightarrow> query" where
  "find_many m wh ord tk =
     \<lparr>q_kind = FindMany, q_model = m, q_where = wh, q_orderBy = ord, q_take = tk\<rparr>"

definition count_query :: "string \<Rightarrow> cond list \<Rightarrow> query" where
  "count_query m wh = \<lparr>q_kind = Count, q_model = m, q_where = wh, q_orderBy = [], q_take = None\<rparr>"

definition find_unique :: "string \<Rightarrow> cond list \<Rightarrow> query" where
  "find_unique m wh =
     \<lparr>q_kind = FindUnique, q_model = m, q_where = wh, q_orderBy = [], q_take = Some 1\<rparr>"

text \<open>A query filters by a tenant when its \<open>where\<close> has \<open>tenantId\<close> equal to that
  tenant's identifier, or, on the tenant table itself, \<open>id\<close> equal to it.\<close>

definition filters_by_tenant :: "string \<Rightarrow> query \<Rightarrow> bool" where
  "filters_by_tenant tid q =
     (Equals ''tenantId'' (VStr tid) \<in> set (q_where q)
      \<or> (q_model q = ''tenant'' \<and> Equals ''id'' (VStr tid) \<in> set (q_where q)))"

subsection \<open>getBusinessContext\<close>

text \<open>The search terms of the contact query (source lines 508 to 531).\<close>

definition companyNamePatterns :: "regex list" where
  "companyNamePatterns = [NameAfterPreposition, NameAfterDocument, NameBeforeDocument]"

definition searchTerms :: "regex_engine \<Rightarrow> string \<Rightarrow> string list" where
  "searchTerms match userMessage =
     (let fromPatterns =
            concat (map (\<lambda>pattern.
                           case match pattern userMessage of
                             None \<Rightarrow> []
                           | Some gs \<Rightarrow> if group 1 gs \<noteq> [] then [trim (group 1 gs)] else [])
                        companyNamePatterns);
          extractedNames =
            fromPatterns @
            (if js_length userMessage < 50
                  \<and> (case trim userMessage of [] \<Rightarrow> False | c # _ \<Rightarrow> is_upper c)
             then [first_token (trim userMessage)]
             else [])
      in if length extractedNames > 0 then extractedNames else [userMessage])"

definition contact_query :: "regex_engine \<Rightarrow> string \<Rightarrow> string \<Rightarrow> query" where
  "contact_query match tenantId userMessage =
     find_many ''contact''
       [Equals ''tenantId'' (VStr tenantId),
        Or (concat (map (\<lambda>term. [Contains ''name'' term, Contains ''company'' term])
                        (searchTerms match userMessage)))]
       [] (Some 1)"

text \<open>The identifier of a matched contact, \<open>relevantContact.id\<close>.\<close>

definition row_id :: "row \<Rightarrow> field_value" where
  "row_id r = (case r ''id'' of Some v \<Rightarrow> v | None \<Rightarrow> VNull)"

definition row_total :: "row \<Rightarrow> int" where
  "row_total r = (case r ''total'' of Some (VNum n) \<Rightarrow> n | _ \<Rightarrow> 0)"

text \<open>What the queries return, as the template of the context block reads it.\<close>

record context_data =
  cd_tenant :: "row option"
  cd_relevantContact :: "row option"
  cd_relevantDeal :: "row option"
  cd_interactions :: "row list"
  cd_relevantProducts :: "row list"
  cd_counts :: "nat list"
  cd_overdueInvoices :: "row list"
  cd_pendingTasks :: "row list"
  cd_recentDeals :: "row list"
  cd_totalRevenue :: int
  cd_pendingInvoices :: "row list"
  cd_pendingInvoiceAmount :: int

definition thirty_days_ms :: int where
  "thirty_days_ms = 30 * 24 * 60 * 60 * 1000"

text \<open>
  The body of the \<open>try\<close> block up to the template (source lines 487 to 720): the queries
  in the order they are awaited. The contact's deals and interactions are queried only
  when a contact matched.
\<close>

definition contact_lookup ::
  "database \<Rightarrow> regex_engine \<Rightarrow> string \<Rightarrow> string
   \<Rightarrow> (row option \<Rightarrow> row option \<Rightarrow> row list \<Rightarrow> 'a db_result) \<Rightarrow> 'a db_result" where
  "contact_lookup db match tenantId userMessage k =
     (if userMessage = [] then k None None []
      else
        exec db (contact_query match tenantId userMessage) (\<lambda>contactMatches.
          case contactMatches of
            [] \<Rightarrow> k None None []
          | relevantContact # _ \<Rightarrow>
              exec db (find_many ''deal''
                         [Equals ''tenantId'' (VStr tenantId),
                          Equals ''contactId'' (row_id relevantContact)]
                         [(''createdAt'', Desc)] (Some 3)) (\<lambda>deals.
              exec db (find_many ''interaction''
                         [Equals ''contactId'' (row_id relevantContact)]
                         [(''createdAt'', Desc)] (Some 5)) (\<lambda>interactions.
              k (Some relevantContact)
                (case deals of [] \<Rightarrow> None | d # _ \<Rightarrow> Some d)
                interactions))))"

definition count_queries :: "string \<Rightarrow> query list" where
  "count_queries tenantId =
     map (\<lambda>m. count_query m [Equals ''tenantId'' (VStr tenantId)])
         [''contact'', ''deal'', ''order'', ''invoice'', ''task'']"

definition context_queries ::
  "database \<Rightarrow> regex_engine \<Rightarrow> int \<Rightarrow> string \<Rightarrow> string \<Rightarrow> context_data db_result" where
  "context_queries db match now_ms tenantId userMessage =
     exec db (find_unique ''tenant'' [Equals ''id'' (VStr tenantId)]) (\<lambda>tenant.
     contact_lookup db match tenantId userMessage (\<lambda>relevantContact relevantDeal interactions.
     exec db (find_many ''product'' [Equals ''tenantId'' (VStr tenantId)]
                [(''totalSold'', Desc)] (Some 10)) (\<lambda>products.
     exec_all db (count_queries tenantId) (\<lambda>counts.
     exec db (find_many ''invoice''
                [Equals ''tenantId'' (VStr tenantId), Equals ''status'' (VStr ''overdue'')]
                [] (Some 10)) (\<lambda>overdueInvoices.
     exec db (find_many ''task''
                [Equals ''tenantId'' (VStr tenantId),
                 In ''status'' [VStr ''pending'', VStr ''in_progress'']]
                [(''priority'', Desc), (''dueDate'', Asc)] (Some 10)) (\<lambda>pendingTasks.
     exec db (find_many ''deal'' [Equals ''tenantId'' (VStr tenantId)]
                [(''value'', Desc), (''createdAt'', Desc)] (Some 10)) (\<lambda>recentDeals.
     exec db (find_many ''order''
                [Equals ''tenantId'' (VStr tenantId),
                 Gte ''createdAt'' (now_ms - thirty_days_ms),
                 In ''status'' [VStr ''confirmed'', VStr ''shipped'', VStr ''delivered'']]
                [] None) (\<lambda>recentOrders.
     exec db (find_many ''invoice''
                [Equals ''tenantId'' (VStr tenantId),
                 In ''status'' [VStr ''sent'', VStr ''draft''],
                 Equals ''paidAt'' VNull]
                [] (Some 10)) (\<lambda>pendingInvoices.
     (Inr \<lparr>cd_tenant = (case tenant of [] \<Rightarrow> None | t # _ \<Rightarrow> Some t),
           cd_relevantContact = relevantContact,
           cd_relevantDeal = relevantDeal,
           cd_interactions = interactions,
           cd_relevantProducts = products,
           cd_counts = map length counts,
           cd_overdueInvoices = overdueInvoices,
           cd_pendingTasks = pendingTasks,
           cd_recentDeals = recentDeals,
           cd_totalRevenue = sum_list (map row_total recentOrders),
           cd_pendingInvoices = pendingInvoices,
           cd_pendingInvoiceAmount = sum_list (map row_total pendingInvoices)\<rparr>,
      []))))))))))"

text \<open>
  The template of the context block (source lines 723 to 796) interpolates these results
  with the runtime's locale formatting of numbers and dates, and throws when a field it
  dereferences is \<open>null\<close>; it is the parameter \<open>render\<close>. Whatever throws inside the
  \<open>try\<close> block, a query or the template, the \<open>catch\<close> of getBusinessContext returns the
  empty string: the promise it returns is never rejected.
\<close>

definition getBusinessContext ::
  "database \<Rightarrow> regex_engine \<Rightarrow> (context_data \<Rightarrow> js_error + string) \<Rightarrow> int \<Rightarrow> string \<Rightarrow> string
   \<Rightarrow> string db_result" where
  "getBusinessContext db match render now_ms tenantId userMessage =
     (case context_queries db match now_ms tenantId userMessage of
        (Inl error, qs) \<Rightarrow> (Inr [], qs)
      | (Inr data, qs) \<Rightarrow>
          (case render data of
             Inl error \<Rightarrow> (Inr [], qs)
           | Inr context \<Rightarrow> (Inr context, qs)))"

subsection \<open>Collaborators of the handler\<close>

type_synonym usage = "nat \<times> nat"

record chat_response =
  resp_message :: string
  resp_usage :: "usage option"

text \<open>
  The OpenAI stage calls \<open>fetch\<close> itself. \<open>OpenAIThrows\<close> stands for a rejected fetch, a
  body that is not JSON and a payload without \<open>choices\<close>; \<open>OpenAIOk content usage\<close> is a
  2xx answer, \<open>content\<close> being \<open>data.choices[0]?.message?.content\<close>.
\<close>

datatype openai_result =
    OpenAIThrows js_error
  | OpenAINotOk
  | OpenAIOk "string option" "usage option"

datatype confidence = Low | Medium | High

record context_flags =
  hasBusinessData :: bool
  hasRelevantContact :: bool
  hasRelevantDeal :: bool
  hasProducts :: bool
  hasTasks :: bool
  hasInvoices :: bool
  hasDeals :: bool

record context_analysis =
  hasEnoughContext :: bool
  confidence_of :: confidence
  missingContext :: "string list"
  suggestedQuestions :: "string list"

text \<open>
  Everything a request meets that the handler does not compute: the outcome of
  \<open>requireModuleAccess\<close> (the tenant and user, or what it throws), of \<open>request.json()\<close>,
  the environment, each provider's answer to the one call the handler may make, the
  database, the regular-expression matcher, the template of the context block, the
  lower-case tables of the runtime, the clock, and the two functions of the context
  analyzer, which is not part of these sources and is taken to return on every input.
\<close>

record chat_world =
  requireModuleAccess :: "js_error + (string \<times> string)"
  request_json :: "js_error + json"
  env :: "string \<rightharpoonup> string"
  groq_chat :: "js_error + chat_response"
  ollama_chat :: "js_error + chat_response"
  huggingFace_chat :: "js_error + chat_response"
  openai_fetch :: openai_result
  w_db :: database
  w_match :: regex_engine
  w_render :: "context_data \<Rightarrow> js_error + string"
  w_now :: int
  w_lower :: unicode_lower
  analyzePromptContext :: "string \<Rightarrow> context_flags \<Rightarrow> context_analysis"
  formatClarifyingQuestions :: "context_analysis \<Rightarrow> string"
  cache_set_throws :: bool

text \<open>\<open>process.env.KEY\<close> is truthy when the variable is set and not empty.\<close>

definition env_set :: "chat_world \<Rightarrow> string \<Rightarrow> bool" where
  "env_set w key = (case env w key of None \<Rightarrow> False | Some v \<Rightarrow> v \<noteq> [])"

subsection \<open>Validation and the topic filter\<close>

definition modules :: "string list" where
  "modules = [''crm'', ''accounting'', ''inventory'', ''marketing'', ''hr'', ''general'']"

text \<open>
  \<open>chatSchema.parse\<close>, field by field. An optional field accepts a missing member and
  nothing else that is not of its type (\<open>null\<close> is refused); members the schema does not
  name are dropped.
\<close>

record chat_context =
  ctx_module :: "string option"
  ctx_tenantId :: "string option"

text \<open>\<open>z.enum([...]).optional()\<close>\<close>

definition parse_module :: "json option \<Rightarrow> js_error + string option" where
  "parse_module v =
     (case v of
        None \<Rightarrow> Inr None
      | Some (JsonString s) \<Rightarrow> if s \<in> set modules then Inr (Some s) else Inl ZodError
      | Some _ \<Rightarrow> Inl ZodError)"

text \<open>\<open>z.string().optional()\<close>\<close>

definition parse_optional_string :: "json option \<Rightarrow> js_error + string option" where
  "parse_optional_string v =
     (case v of
        None \<Rightarrow> Inr None
      | Some (JsonString s) \<Rightarrow> Inr (Some s)
      | Some _ \<Rightarrow> Inl ZodError)"

text \<open>\<open>z.object({ module: ..., tenantId: ... }).optional()\<close>\<close>

definition parse_context :: "json option \<Rightarrow> js_error + chat_context option" where
  "parse_context v =
     (case v of
        None \<Rightarrow> Inr None
      | Some (JsonObject obj) \<Rightarrow>
          (case parse_module (member obj ''module'') of
             Inl e \<Rightarrow> Inl e
           | Inr md \<Rightarrow>
               (case parse_optional_string (member obj ''tenantId'') of
                  Inl e \<Rightarrow> Inl e
                | Inr tid \<Rightarrow> Inr (Some \<lparr>ctx_module = md, ctx_tenantId = tid\<rparr>)))
      | Some _ \<Rightarrow> Inl ZodError)"

text \<open>\<open>z.string().min(1)\<close>\<close>

definition parse_message :: "json option \<Rightarrow> js_error + string" where
  "parse_message v =
     (case v of
        Some (JsonString s) \<Rightarrow> if js_length s < 1 then Inl ZodError else Inr s
      | _ \<Rightarrow> Inl ZodError)"

definition chatSchema_parse :: "json \<Rightarrow> js_error + (string \<times> chat_context option)" where
  "chatSchema_parse body =
     (case body of
        JsonObject obj \<Rightarrow>
          (case parse_message (member obj ''message'') of
             Inl e \<Rightarrow> Inl e
           | Inr message \<Rightarrow>
               (case parse_context (member obj ''context'') of
                  Inl e \<Rightarrow> Inl e
                | Inr context \<Rightarrow> Inr (message, context)))
      | _ \<Rightarrow> Inl ZodError)"

definition personalKeywords :: "string list" where
  "personalKeywords =
     [''girlfriend'', ''boyfriend'', ''wife'', ''husband'', ''dating'', ''love'', ''relationship'',
      ''family'', ''personal'', ''life'', ''marriage'', ''divorce'', ''breakup'', ''romance'',
      ''sex'', ''intimate'', ''private'', ''personal problem'', ''personal issue'']"

definition isPersonalQuery :: "unicode_lower \<Rightarrow> string \<Rightarrow> bool" where
  "isPersonalQuery lower message =
     (\<exists>keyword \<in> set personalKeywords. js_includes (toLowerCase lower message) keyword)"

text \<open>The bullet, U+2022, in UTF-8, and the canned redirect.\<close>

definition bullet :: string where
  "bullet = [CHR 0xE2, CHR 0x80, CHR 0xA2]"

definition redirect_message :: string where
  "redirect_message =
     ''I'm a business assistant and can only help with business-related questions. '' @
     ''How can I assist you with your business today? I can help with:'' @ nl @ nl @
     bullet @ '' Business proposals and quotes'' @ nl @
     bullet @ '' Social media posts (LinkedIn, Facebook, etc.)'' @ nl @
     bullet @ '' Pitch decks and business plans'' @ nl @
     bullet @ '' Marketing content'' @ nl @
     bullet @ '' Sales strategies'' @ nl @
     bullet @ '' Financial analysis'' @ nl @
     bullet @ '' And other business operations''"

subsection \<open>Responses and effects\<close>

record chat_json =
  j_message :: string
  j_service :: string
  j_cached :: bool
  j_usage :: "usage option"
  j_needsClarification :: "bool option"
  j_suggestedQuestions :: "string list option"

text \<open>
  \<open>LicenseErrorResponse\<close> is what \<open>handleLicenseError\<close> builds (the 401/403 of the
  authentication collaborator), \<open>Validation400\<close> the answer to a \<open>ZodError\<close>, and
  \<open>Error500 message hint\<close> the last branch of the handler's \<open>catch\<close>.
\<close>

datatype http_response =
    Json200 chat_json
  | LicenseErrorResponse
  | Validation400
  | Error500 string string

datatype provider = Groq | Ollama | HuggingFace | OpenAI

record log_job =
  job_userId :: string
  job_tenantId :: string
  job_query :: string
  job_response :: string
  job_module :: string

datatype effect =
    DbQuery query
  | ProviderCall provider
  | CacheSet string string
  | QueueAdd log_job

text \<open>The handler's outer \<open>catch\<close> (source lines 298 to 342).\<close>

definition chat_catch :: "js_error \<Rightarrow> http_response" where
  "chat_catch error =
     (case error of
        LicenseError \<Rightarrow> LicenseErrorResponse
      | ZodError \<Rightarrow> Validation400
      | OtherError errorMessage \<Rightarrow>
          if js_includes errorMessage ''GROQ_API_KEY not configured'' then
            Error500 ''Groq API key is not configured''
              ''Please set GROQ_API_KEY in your .env file. Groq provides fast AI responses.''
          else if js_includes errorMessage ''Ollama'' \<and> js_includes errorMessage ''memory'' then
            Error500 ''Ollama model requires more memory than available''
              (''The llama3.1:8b model needs 4.8 GB RAM but only 3.1 GB is available. '' @
               ''Consider using Groq API instead (already configured) or use a smaller model.'')
          else if js_includes errorMessage ''ECONNREFUSED'' \<or> js_includes errorMessage ''fetch failed'' then
            Error500 ''Cannot connect to AI service''
              ''Please check your internet connection and ensure AI services are accessible.''
          else Error500 errorMessage [])"

subsection \<open>Provider fallback (source lines 96 to 267)\<close>

datatype stage = GroqStage | OllamaStage | HuggingFaceStage | OpenAIStage | RuleBasedStage

datatype stage_outcome = Raised | Succeeded

text \<open>
  Each stage is one \<open>try\<close> block: its outcome, and the network calls made in it. A stage
  whose key is not configured throws before it calls the provider.
\<close>

definition groq_stage :: "chat_world \<Rightarrow> (js_error + chat_response) \<times> provider list" where
  "groq_stage w =
     (if \<not> env_set w ''GROQ_API_KEY''
      then (Inl (OtherError ''GROQ_API_KEY not configured in environment variables''), [])
      else (groq_chat w, [Groq]))"

definition ollama_stage :: "chat_world \<Rightarrow> (js_error + chat_response) \<times> provider list" where
  "ollama_stage w = (ollama_chat w, [Ollama])"

definition huggingFace_stage :: "chat_world \<Rightarrow> (js_error + chat_response) \<times> provider list" where
  "huggingFace_stage w =
     (if env_set w ''HUGGINGFACE_API_KEY'' then (huggingFace_chat w, [HuggingFace])
      else (Inl (OtherError ''Hugging Face API key not configured''), []))"

definition openai_stage :: "chat_world \<Rightarrow> (js_error + chat_response) \<times> provider list" where
  "openai_stage w =
     (if env_set w ''OPENAI_API_KEY'' then
        (case openai_fetch w of
           OpenAIThrows e \<Rightarrow> (Inl e, [OpenAI])
         | OpenAINotOk \<Rightarrow> (Inl (OtherError ''OpenAI failed''), [OpenAI])
         | OpenAIOk content usage \<Rightarrow>
             (Inr \<lparr>resp_message = (case content of None \<Rightarrow> [] | Some c \<Rightarrow> c),
                   resp_usage = usage\<rparr>, [OpenAI]))
      else (Inl (OtherError ''No AI service available''), []))"

record fallback_result =
  fb_response :: chat_response
  usedService :: string
  fb_attempts :: "(stage \<times> stage_outcome) list"
  fb_calls :: "provider list"

definition provider_fallback :: "chat_world \<Rightarrow> string \<Rightarrow> string \<Rightarrow> fallback_result" where
  "provider_fallback w message businessContext =
     (case groq_stage w of
        (Inr response, c1) \<Rightarrow>
          \<lparr>fb_response = response, usedService = ''groq'',
           fb_attempts = [(GroqStage, Succeeded)], fb_calls = c1\<rparr>
      | (Inl groqError, c1) \<Rightarrow>
     (case ollama_stage w of
        (Inr response, c2) \<Rightarrow>
          \<lparr>fb_response = response, usedService = ''ollama'',
           fb_attempts = [(GroqStage, Raised), (OllamaStage, Succeeded)], fb_calls = c1 @ c2\<rparr>
      | (Inl ollamaError, c2) \<Rightarrow>
     (case huggingFace_stage w of
        (Inr response, c3) \<Rightarrow>
          \<lparr>fb_response = response, usedService = ''huggingface'',
           fb_attempts = [(GroqStage, Raised), (OllamaStage, Raised), (HuggingFaceStage, Succeeded)],
           fb_calls = c1 @ c2 @ c3\<rparr>
      | (Inl huggingFaceError, c3) \<Rightarrow>
     (case openai_stage w of
        (Inr response, c4) \<Rightarrow>
          \<lparr>fb_response = response, usedService = ''openai'',
           fb_attempts = [(GroqStage, Raised), (OllamaStage, Raised), (HuggingFaceStage, Raised),
                       (OpenAIStage, Succeeded)],
           fb_calls = c1 @ c2 @ c3 @ c4\<rparr>
      | (Inl openAIError, c4) \<Rightarrow>
          \<lparr>fb_response =
             \<lparr>resp_message = getHelpfulResponse (w_lower w) (w_match w) message businessContext,
              resp_usage = None\<rparr>,
           usedService = ''rule-based'',
           fb_attempts = [(GroqStage, Raised), (OllamaStage, Raised), (HuggingFaceStage, Raised),
                       (OpenAIStage, Raised), (RuleBasedStage, Succeeded)],
           fb_calls = c1 @ c2 @ c3 @ c4\<rparr>))))"

subsection \<open>The handler\<close>

text \<open>
  Source lines 51 to 58: the context, or the placeholder when getBusinessContext rejects.
\<close>

definition assemble_context :: "chat_world \<Rightarrow> string \<Rightarrow> string \<Rightarrow> string \<times> query list" where
  "assemble_context w tenantId message =
     (case getBusinessContext (w_db w) (w_match w) (w_render w) (w_now w) tenantId message of
        (Inl contextError, qs) \<Rightarrow> (''Business context unavailable. Please try again.'', qs)
      | (Inr businessContext, qs) \<Rightarrow> (businessContext, qs))"

definition flags_of :: "string \<Rightarrow> context_flags" where
  "flags_of businessContext =
     \<lparr>hasBusinessData = (js_length businessContext > 100),
      hasRelevantContact = js_includes businessContext ''RELEVANT CLIENT/COMPANY INFORMATION'',
      hasRelevantDeal = js_includes businessContext ''RELATED DEAL'',
      hasProducts = js_includes businessContext ''AVAILABLE PRODUCTS/SERVICES'',
      hasTasks = (js_includes businessContext ''PENDING TASKS''
                  \<and> \<not> js_includes businessContext ''None - You have no pending tasks''),
      hasInvoices = (js_includes businessContext ''OVERDUE INVOICES''
                     \<and> \<not> js_includes businessContext ''None - You have no overdue invoices''),
      hasDeals = (js_includes businessContext ''ACTIVE DEALS''
                  \<and> \<not> js_includes businessContext ''None - You have no active deals'')\<rparr>"

text \<open>\<open>validated.context?.module || 'general'\<close>\<close>

definition module_or_general :: "chat_context option \<Rightarrow> string" where
  "module_or_general context =
     (case context of
        None \<Rightarrow> ''general''
      | Some c \<Rightarrow> (case ctx_module c of
                    None \<Rightarrow> ''general''
                  | Some m \<Rightarrow> if m = [] then ''general'' else m))"

text \<open>
  The semantic cache is explicit state, a map from message to response. The handler only
  writes it: the lookup before the providers is commented out in the source (lines 86 to
  94). A \<open>set\<close> that throws is caught and leaves the cache as it was; the job for the
  interaction log is handed to the queue without being awaited.

  The system prompt and the user message given to the providers are string templates over
  the tenant, the module, the message and the context; a provider's answer to them is the
  outcome recorded in the world.
\<close>

definition chat_POST ::
  "chat_world \<Rightarrow> (string \<rightharpoonup> string) \<Rightarrow> http_response \<times> effect list \<times> (string \<rightharpoonup> string)" where
  "chat_POST w cache =
     (case requireModuleAccess w of
        Inl error \<Rightarrow> (chat_catch error, [], cache)
      | Inr (tenantId, userId) \<Rightarrow>
     (case request_json w of
        Inl error \<Rightarrow> (chat_catch error, [], cache)
      | Inr body \<Rightarrow>
     (case chatSchema_parse body of
        Inl error \<Rightarrow> (chat_catch error, [], cache)
      | Inr (message, context) \<Rightarrow>
          if isPersonalQuery (w_lower w) message then
            (Json200 \<lparr>j_message = redirect_message, j_service = ''filtered'', j_cached = False,
                      j_usage = None, j_needsClarification = None,
                      j_suggestedQuestions = None\<rparr>,
             [], cache)
          else
            (case assemble_context w tenantId message of (businessContext, qs) \<Rightarrow>
               let contextAnalysis = analyzePromptContext w message (flags_of businessContext)
               in if \<not> hasEnoughContext contextAnalysis \<and> confidence_of contextAnalysis = Low then
                    (Json200 \<lparr>j_message = formatClarifyingQuestions w contextAnalysis,
                              j_service = ''context-analyzer'', j_cached = False,
                              j_usage = None, j_needsClarification = Some True,
                              j_suggestedQuestions = Some (suggestedQuestions contextAnalysis)\<rparr>,
                     map DbQuery qs, cache)
                  else
                    let fb = provider_fallback w message businessContext;
                        response = fb_response fb;
                        cached = (usedService fb \<noteq> ''rule-based'' \<and> resp_message response \<noteq> [])
                    in (Json200 \<lparr>j_message = resp_message response,
                                 j_service = usedService fb, j_cached = False,
                                 j_usage = resp_usage response, j_needsClarification = None,
                                 j_suggestedQuestions = None\<rparr>,
                        map DbQuery qs @ map ProviderCall (fb_calls fb)
                        @ (if cached then [CacheSet message (resp_message response)] else [])
                        @ [QueueAdd \<lparr>job_userId = userId, job_tenantId = tenantId,
                                      job_query = message,
                                      job_response = resp_message response,
                                      job_module = module_or_general context\<rparr>],
                        if cached \<and> \<not> cache_set_throws w
                        then cache(message \<mapsto> resp_message response) else cache)))))"






subsection \<open>Provider calls among the effects\<close>

fun provider_calls :: "effect list \<Rightarrow> provider list" where
  "provider_calls [] = []"
| "provider_calls (ProviderCall p # es) = p # provider_calls es"
| "provider_calls (e # es) = provider_calls es"

fun cache_writes :: "effect list \<Rightarrow> (string \<times> string) list" where
  "cache_writes [] = []"
| "cache_writes (CacheSet k v # es) = (k, v) # cache_writes es"
| "cache_writes (e # es) = cache_writes es"

fun log_jobs :: "effect list \<Rightarrow> log_job list" where
  "log_jobs [] = []"
| "log_jobs (QueueAdd j # es) = j # log_jobs es"
| "log_jobs (e # es) = log_jobs es"

fun db_queries :: "effect list \<Rightarrow> query list" where
  "db_queries [] = []"
| "db_queries (DbQuery q # es) = q # db_queries es"
| "db_queries (e # es) = db_queries es"

subsection \<open>Example requests\<close>

text \<open>
  A licensed tenant with an empty database asks what needs attention; no provider key
  is configured and no provider answers. The other examples change one thing each.
\<close>

text \<open>A database that compares ASCII letters without regard to case.\<close>

definition ascii_contains :: "string \<Rightarrow> string \<Rightarrow> bool" where
  "ascii_contains s term = js_includes (map lower_char s) (map lower_char term)"

definition empty_database :: database where
  "empty_database =
     \<lparr>tables = (\<lambda>m. []), value_le = (\<lambda>a b. True), contains_insensitive = ascii_contains,
      query_throws = (\<lambda>q. False)\<rparr>"

definition attention_body :: json where
  "attention_body = JsonObject [(''message'', JsonString ''what needs attention'')]"

definition offline_world :: chat_world where
  "offline_world =
     \<lparr>requireModuleAccess = Inr (''t1'', ''u1''),
      request_json = Inr attention_body,
      env = Map.empty,
      groq_chat = Inl (OtherError ''fetch failed''),
      ollama_chat = Inl (OtherError ''fetch failed''),
      huggingFace_chat = Inl (OtherError ''fetch failed''),
      openai_fetch = OpenAIThrows (OtherError ''fetch failed''),
      w_db = empty_database,
      w_match = (\<lambda>re s. None),
      w_render = (\<lambda>d. Inr ''=== BUSINESS DATA ===''),
      w_now = 0,
      w_lower = (\<lambda>before run after. run),
      analyzePromptContext =
        (\<lambda>m f. \<lparr>hasEnoughContext = True, confidence_of = High, missingContext = [],
                 suggestedQuestions = []\<rparr>),
      formatClarifyingQuestions = (\<lambda>a. ''Which client is this about?''),
      cache_set_throws = False\<rparr>"

text \<open>Groq is configured and answers.\<close>

definition groq_world :: chat_world where
  "groq_world =
     offline_world
       \<lparr>env := [''GROQ_API_KEY'' \<mapsto> ''gsk''],
        groq_chat := Inr \<lparr>resp_message = ''Nothing is overdue.'', resp_usage = None\<rparr>\<rparr>"

text \<open>Only Hugging Face is configured and answers; Ollama is not running.\<close>

definition huggingFace_world :: chat_world where
  "huggingFace_world =
     offline_world
       \<lparr>env := [''HUGGINGFACE_API_KEY'' \<mapsto> ''hf''],
        huggingFace_chat := Inr \<lparr>resp_message = ''Nothing is overdue.'', resp_usage = None\<rparr>\<rparr>"

text \<open>Only OpenAI is configured; it answers 200 with a choice that has no content.\<close>

definition openai_empty_world :: chat_world where
  "openai_empty_world =
     offline_world
       \<lparr>env := [''OPENAI_API_KEY'' \<mapsto> ''sk''],
        openai_fetch := OpenAIOk None None\<rparr>"

text \<open>A personal question, asked from the CRM module.\<close>

definition personal_body :: json where
  "personal_body =
     JsonObject [(''message'', JsonString ''How do I impress my Girlfriend?''),
                 (''context'', JsonObject [(''module'', JsonString ''crm'')])]"

definition personal_world :: chat_world where
  "personal_world = groq_world\<lparr>request_json := Inr personal_body\<rparr>"

text \<open>
  The Kelvin sign, U+212A, whose lower-case form is the letter \<open>k\<close>, and a runtime that
  knows it: a message that reads \<open>breakup\<close> only after lower-casing.
\<close>

definition kelvin :: string where
  "kelvin = [CHR 0xE2, CHR 0x84, CHR 0xAA]"

definition kelvin_body :: json where
  "kelvin_body = JsonObject [(''message'', JsonString (''After the BREA'' @ kelvin @ ''UP''))]"

definition kelvin_world :: chat_world where
  "kelvin_world =
     groq_world
       \<lparr>request_json := Inr kelvin_body,
        w_lower := (\<lambda>before run after. if run = kelvin then ''k'' else run)\<rparr>"

text \<open>A personal question in a body whose \<open>context.module\<close> is the number 5.\<close>

definition bad_module_body :: json where
  "bad_module_body =
     JsonObject [(''message'', JsonString ''How do I impress my Girlfriend?''),
                 (''context'', JsonObject [(''module'', JsonNumber ''5'')])]"

definition bad_module_world :: chat_world where
  "bad_module_world = groq_world\<lparr>request_json := Inr bad_module_body\<rparr>"

text \<open>The first query of the context assembly fails.\<close>

definition db_down_world :: chat_world where
  "db_down_world =
     groq_world \<lparr>w_db := empty_database\<lparr>query_throws := (\<lambda>q. True)\<rparr>\<rparr>"

definition networked_services :: "string list" where
  "networked_services = [''groq'', ''ollama'', ''huggingface'', ''openai'']"

subsection \<open>A database shared by two tenants\<close>

text \<open>
  The schema of the tables is not part of these sources; a row is any map from field
  names to values. In the data model of the specification every entity is partitioned
  by tenant identifier, so the rows of the interaction table carry \<open>tenantId\<close> like the
  rows of the other tables.

  Tenant \<open>A\<close> has the contact Acme. The interaction table holds a row for that contact
  that carries the tenant identifier \<open>B\<close>.
\<close>

definition shared_database :: database where
  "shared_database =
     \<lparr>tables = (\<lambda>m.
        if m = ''contact'' then
          [[''id'' \<mapsto> VStr ''c1'', ''tenantId'' \<mapsto> VStr ''A'', ''name'' \<mapsto> VStr ''Acme Corp'']]
        else if m = ''interaction'' then
          [[''contactId'' \<mapsto> VStr ''c1'', ''tenantId'' \<mapsto> VStr ''B'',
            ''subject'' \<mapsto> VStr ''renewal'']]
        else []),
      value_le = (\<lambda>a b. True),
      contains_insensitive = ascii_contains,
      query_throws = (\<lambda>q. False)\<rparr>"

definition interaction_query :: query where
  "interaction_query =
     find_many ''interaction'' [Equals ''contactId'' (VStr ''c1'')] [(''createdAt'', Desc)] (Some 5)"

section \<open>Usage statistics and image generation\<close>

text \<open>
  Both handlers start with \<open>await requireAIStudioAccess(request)\<close> inside their \<open>try\<close>
  block. Its outcome is a parameter, like that of \<open>requireModuleAccess\<close> for the chat: the
  tenant and the user, or the error it throws.
\<close>

subsection \<open>GET /api/ai/usage\<close>

text \<open>\<open>s.replace(pat, '')\<close> with a string pattern removes its first occurrence.\<close>

fun remove_first :: "string \<Rightarrow> string \<Rightarrow> string" where
  "remove_first pat [] = []"
| "remove_first pat (c # cs) =
     (if prefix pat (c # cs) then drop (length pat) (c # cs) else c # remove_first pat cs)"

record usage_json =
  uj_month :: string
  uj_usage :: "(string \<times> nat \<times> nat) list"
  uj_total_count :: nat
  uj_total_tokens :: nat
  uj_gateway :: "string option"

datatype usage_response = UsageOk usage_json | UsageFailed js_error

text \<open>The status code of the response: the handler's only \<open>catch\<close> answers 500.\<close>

fun usage_status :: "usage_response \<Rightarrow> nat" where
  "usage_status (UsageOk j) = 200"
| "usage_status (UsageFailed e) = 500"

datatype usage_effect = GatewaySetToken string | GatewayGetUsage | UsageGroupBy string

text \<open>
  A row of the \<open>groupBy\<close> is a service, its count and its token sum, which is \<open>null\<close> when
  no row of the group has tokens.
\<close>

record usage_world =
  u_requireAIStudioAccess :: "js_error + (string \<times> string)"
  u_authorization :: "string option"
  u_gateway_getUsage :: "js_error + string"
  u_groupBy :: "string \<Rightarrow> js_error + (string \<times> nat \<times> nat option) list"
  u_currentMonth :: string

definition tokens_of :: "nat option \<Rightarrow> nat" where
  "tokens_of t = (case t of None \<Rightarrow> 0 | Some n \<Rightarrow> n)"

definition usage_GET :: "usage_world \<Rightarrow> usage_response \<times> usage_effect list" where
  "usage_GET w =
     (case u_requireAIStudioAccess w of
        Inl error \<Rightarrow> (UsageFailed error, [])
      | Inr (tenantId, userId) \<Rightarrow>
          let token = map_option (remove_first ''Bearer '') (u_authorization w);
              setToken = (case token of
                            None \<Rightarrow> []
                          | Some t \<Rightarrow> if t \<noteq> [] then [GatewaySetToken t] else []);
              gatewayUsage = (case u_gateway_getUsage w of
                                Inl error \<Rightarrow> None
                              | Inr g \<Rightarrow> Some g);
              effects = setToken @ [GatewayGetUsage, UsageGroupBy tenantId]
          in (case u_groupBy w tenantId of
                Inl error \<Rightarrow> (UsageFailed error, effects)
              | Inr dbUsage \<Rightarrow>
                  (UsageOk
                     \<lparr>uj_month = u_currentMonth w,
                      uj_usage = map (\<lambda>(service, n, t). (service, n, tokens_of t)) dbUsage,
                      uj_total_count = sum_list (map (\<lambda>(service, n, t). n) dbUsage),
                      uj_total_tokens = sum_list (map (\<lambda>(service, n, t). tokens_of t) dbUsage),
                      uj_gateway = gatewayUsage\<rparr>,
                   effects)))"

subsection \<open>POST /api/ai/generate-image\<close>

record image_request =
  ir_prompt :: string
  ir_style :: "string option"
  ir_size :: "string option"

text \<open>\<open>generateImageSchema.parse\<close>: \<open>prompt\<close> is a string of at least one character,
  \<open>style\<close> and \<open>size\<close> are optional strings.\<close>

definition generateImageSchema_parse :: "json \<Rightarrow> js_error + image_request" where
  "generateImageSchema_parse body =
     (case body of
        JsonObject obj \<Rightarrow>
          (case parse_message (member obj ''prompt'') of
             Inl e \<Rightarrow> Inl e
           | Inr prompt \<Rightarrow>
               (case parse_optional_string (member obj ''style'') of
                  Inl e \<Rightarrow> Inl e
                | Inr style \<Rightarrow>
                    (case parse_optional_string (member obj ''size'') of
                       Inl e \<Rightarrow> Inl e
                     | Inr sz \<Rightarrow>
                         Inr \<lparr>ir_prompt = prompt, ir_style = style, ir_size = sz\<rparr>)))
      | _ \<Rightarrow> Inl ZodError)"

text \<open>\<open>body.provider\<close>, which the handler reads from the body as it came.\<close>

definition body_provider :: "json \<Rightarrow> json option" where
  "body_provider body = (case body of JsonObject obj \<Rightarrow> member obj ''provider'' | _ \<Rightarrow> None)"

datatype image_response = ImageAnswer nat string | ImageValidation400 | ImageFailed js_error

text \<open>
  The handler's outer \<open>catch\<close> (source lines 326 to 362): 400 for a \<open>ZodError\<close>, 500 for
  everything else.
\<close>

definition image_catch :: "js_error \<Rightarrow> image_response" where
  "image_catch error = (case error of ZodError \<Rightarrow> ImageValidation400 | _ \<Rightarrow> ImageFailed error)"

fun image_status :: "image_response \<Rightarrow> nat" where
  "image_status (ImageAnswer code body) = code"
| "image_status ImageValidation400 = 400"
| "image_status (ImageFailed e) = 500"

datatype image_effect = ImageProviderCall string | TenantLookup string

text \<open>
  The selection among the image providers (source lines 26 to 325) is the parameter
  \<open>i_generate\<close>: from the tenant, the validated body and the provider asked for to the
  response, with its status code, or the error that reaches the outer \<open>catch\<close>, and the
  calls made.
\<close>

record image_world =
  i_requireAIStudioAccess :: "js_error + (string \<times> string)"
  i_request_json :: "js_error + json"
  i_generate ::
    "string \<Rightarrow> image_request \<Rightarrow> json option
     \<Rightarrow> (js_error + nat \<times> string) \<times> image_effect list"

definition generate_image_POST :: "image_world \<Rightarrow> image_response \<times> image_effect list" where
  "generate_image_POST w =
     (case i_requireAIStudioAccess w of
        Inl error \<Rightarrow> (image_catch error, [])
      | Inr (tenantId, userId) \<Rightarrow>
     (case i_request_json w of
        Inl error \<Rightarrow> (image_catch error, [])
      | Inr body \<Rightarrow>
     (case generateImageSchema_parse body of
        Inl error \<Rightarrow> (image_catch error, [])
      | Inr validated \<Rightarrow>
          (case i_generate w tenantId validated (body_provider body) of
             (Inl error, effects) \<Rightarrow> (image_catch error, effects)
           | (Inr (code, json), effects) \<Rightarrow> (ImageAnswer code json, effects)))))"

subsection \<open>Unlicensed requests\<close>

text \<open>The authentication collaborator throws its license error.\<close>

definition unlicensed_usage_world :: usage_world where
  "unlicensed_usage_world =
     \<lparr>u_requireAIStudioAccess = Inl LicenseError,
      u_authorization = Some ''Bearer abc'',
      u_gateway_getUsage = Inr ''{}'',
      u_groupBy = (\<lambda>t. Inr [(''groq'', 3, Some 1200)]),
      u_currentMonth = ''2025-01''\<rparr>"

definition unlicensed_image_world :: image_world where
  "unlicensed_image_world =
     \<lparr>i_requireAIStudioAccess = Inl LicenseError,
      i_request_json = Inr (JsonObject [(''prompt'', JsonString ''a blue square'')]),
      i_generate = (\<lambda>t b p. (Inr (200, ''image''), [ImageProviderCall ''huggingface'']))\<rparr>"

definition unlicensed_chat_world :: chat_world where
  "unlicensed_chat_world = groq_world\<lparr>requireModuleAccess := Inl LicenseError\<rparr>"

section \<open>Properties of the telephony webhook\<close>

subsection \<open>Lower-casing\<close>

lemma lower_char_not_upper: "\<not> is_upper (lower_char c)"
  by (simp add: lower_char_def is_upper_def split: option.splits if_splits)

text \<open>On an ASCII string the tables of the runtime are not consulted.\<close>

lemma lower_from_ascii:
  "list_all is_ascii s \<Longrightarrow> lower_from lower before [] s = map lower_char s"
  by (induction s arbitrary: before) simp_all

lemma toLowerCase_ascii:
  "list_all is_ascii s \<Longrightarrow> toLowerCase lower s = map lower_char s"
  by (simp add: toLowerCase_def lower_from_ascii)

lemma no_capitalsD: "no_capitals lower \<Longrightarrow> c \<in> set (lower before seg after) \<Longrightarrow> \<not> is_upper c"
  unfolding no_capitals_def by blast

lemma lower_from_no_upper:
  assumes "no_capitals lower" and "c \<in> set (lower_from lower before seg s)"
  shows "\<not> is_upper c"
  using assms(2)
proof (induction s arbitrary: before seg)
  case Nil
  then show ?case
    using no_capitalsD [OF assms(1)] by (cases "seg = []") auto
next
  case (Cons x xs)
  show ?case
  proof (cases "is_ascii x")
    case True
    with Cons.prems consider
      "seg \<noteq> []" "c \<in> set (lower before seg (x # xs))"
      | "c = lower_char x"
      | "c \<in> set (lower_from lower (before @ seg @ [x]) [] xs)"
      by (cases "seg = []") auto
    then show ?thesis
    proof cases
      case 1
      then show ?thesis using no_capitalsD [OF assms(1)] by blast
    next
      case 2
      then show ?thesis using lower_char_not_upper by simp
    next
      case 3
      then show ?thesis using Cons.IH by blast
    qed
  next
    case False
    with Cons.prems Cons.IH show ?thesis by simp
  qed
qed

lemma toLowerCase_no_upper:
  "no_capitals lower \<Longrightarrow> c \<in> set (toLowerCase lower s) \<Longrightarrow> \<not> is_upper c"
  unfolding toLowerCase_def by (rule lower_from_no_upper)

lemma toLowerCase_neq:
  assumes "no_capitals lower" and "c \<in> set key" and "is_upper c"
  shows "toLowerCase lower s \<noteq> key"
  using assms toLowerCase_no_upper by blast

text \<open>Of the inherited keys, only two are their own lower-case form.\<close>

lemma lowered_prototype_key:
  assumes "no_capitals lower"
  shows "toLowerCase lower s \<in> set object_prototype_keys
   \<longleftrightarrow> toLowerCase lower s = ''constructor'' \<or> toLowerCase lower s = ''__proto__''"
proof -
  note neq = toLowerCase_neq [OF assms]
  have "toLowerCase lower s \<noteq> ''__defineGetter__''"
    by (rule neq [of "CHR ''G''"]) (simp_all add: is_upper_def)
  moreover have "toLowerCase lower s \<noteq> ''__defineSetter__''"
    by (rule neq [of "CHR ''S''"]) (simp_all add: is_upper_def)
  moreover have "toLowerCase lower s \<noteq> ''hasOwnProperty''"
    by (rule neq [of "CHR ''O''"]) (simp_all add: is_upper_def)
  moreover have "toLowerCase lower s \<noteq> ''__lookupGetter__''"
    by (rule neq [of "CHR ''G''"]) (simp_all add: is_upper_def)
  moreover have "toLowerCase lower s \<noteq> ''__lookupSetter__''"
    by (rule neq [of "CHR ''S''"]) (simp_all add: is_upper_def)
  moreover have "toLowerCase lower s \<noteq> ''isPrototypeOf''"
    by (rule neq [of "CHR ''P''"]) (simp_all add: is_upper_def)
  moreover have "toLowerCase lower s \<noteq> ''propertyIsEnumerable''"
    by (rule neq [of "CHR ''I''"]) (simp_all add: is_upper_def)
  moreover have "toLowerCase lower s \<noteq> ''toString''"
    by (rule neq [of "CHR ''S''"]) (simp_all add: is_upper_def)
  moreover have "toLowerCase lower s \<noteq> ''valueOf''"
    by (rule neq [of "CHR ''O''"]) (simp_all add: is_upper_def)
  moreover have "toLowerCase lower s \<noteq> ''toLocaleString''"
    by (rule neq [of "CHR ''L''"]) (simp_all add: is_upper_def)
  ultimately show ?thesis
    by (simp add: object_prototype_keys_def)
qed

subsection \<open>The status mapping\<close>

lemmas mapTwilioStatus_eval =
  mapTwilioStatus_def object_get_def statusMap_def toLowerCase_ascii is_ascii_def lower_char_def
  object_prototype_keys_def

text \<open>The seven named vendor statuses, one of them in mixed case, and an unknown one.\<close>

lemma mapTwilioStatus_named:
  "mapTwilioStatus lower ''ringing'' = JString ''RINGING''"
  "mapTwilioStatus lower ''in-progress'' = JString ''ANSWERED''"
  "mapTwilioStatus lower ''completed'' = JString ''COMPLETED''"
  "mapTwilioStatus lower ''busy'' = JString ''BUSY''"
  "mapTwilioStatus lower ''no-answer'' = JString ''NO_ANSWER''"
  "mapTwilioStatus lower ''failed'' = JString ''FAILED''"
  "mapTwilioStatus lower ''canceled'' = JString ''FAILED''"
  "mapTwilioStatus lower ''In-Progress'' = JString ''ANSWERED''"
  "mapTwilioStatus lower ''queued'' = JString ''RINGING''"
  by (simp_all add: mapTwilioStatus_eval)

lemma statusMap_values_nonempty: "map_of statusMap k = Some v \<Longrightarrow> v \<noteq> []"
  by (auto simp: statusMap_def split: if_splits)

text \<open>What the function returns on every string.\<close>

lemma mapTwilioStatus_cases:
  assumes "no_capitals lower"
  shows "mapTwilioStatus lower s =
     (case map_of statusMap (toLowerCase lower s) of
        Some v \<Rightarrow> JString v
      | None \<Rightarrow> if toLowerCase lower s = ''constructor'' \<or> toLowerCase lower s = ''__proto__''
                then JInherited (toLowerCase lower s) else JString ''RINGING'')"
proof (cases "map_of statusMap (toLowerCase lower s)")
  case None
  then show ?thesis
    using lowered_prototype_key [OF assms, of s] by (simp add: mapTwilioStatus_def object_get_def)
next
  case (Some v)
  then show ?thesis
    using statusMap_values_nonempty [OF Some] by (simp add: mapTwilioStatus_def object_get_def)
qed

lemma mapTwilioStatus_default:
  assumes "no_capitals lower" and "toLowerCase lower s \<notin> fst ` set statusMap"
    and "toLowerCase lower s \<noteq> ''constructor''" and "toLowerCase lower s \<noteq> ''__proto__''"
  shows "mapTwilioStatus lower s = JString ''RINGING''"
proof -
  from assms(2) have "map_of statusMap (toLowerCase lower s) = None"
    by (simp add: map_of_eq_None_iff)
  with assms(3,4) show ?thesis by (simp add: mapTwilioStatus_cases [OF assms(1)])
qed

text \<open>
  Claim C9 (the status mapping is total on strings and sends every string other than the
  seven named ones to \<open>RINGING\<close>) fails on the code: the lookup \<open>statusMap[k]\<close> reads an
  object literal, so for the vendor status \<open>constructor\<close> it finds the property inherited
  from \<open>Object.prototype\<close>, which is truthy, and returns it. The result is not the string
  \<open>RINGING\<close>, and not a string at all.
\<close>

theorem mapTwilioStatus_constructor:
  "mapTwilioStatus lower ''constructor'' = JInherited ''constructor''
   \<and> mapTwilioStatus lower ''constructor'' \<noteq> JString ''RINGING''"
  by (simp add: mapTwilioStatus_eval)

subsection \<open>New call records\<close>

text \<open>
  Claim C10: when the table holds no call with the vendor call id of the callback, the
  handler adds at most one row, every row it adds carries the tenant identifier
  \<open>default\<close> and the vendor call id, whatever the caller, the callee and the direction
  are; and when the callback has a status and the persistence layer rejects nothing,
  exactly one such row is added.
\<close>

theorem webhook_new_call_tenant_default:
  assumes "formData w = Some form"
    and "find (\<lambda>r. twilioCallSid r = form ''CallSid'') calls = None"
  shows "(\<exists>rows. snd (webhook_POST w calls) = calls @ rows
            \<and> length rows \<le> 1
            \<and> (\<forall>r \<in> set rows. call_tenantId r = ''default'' \<and> twilioCallSid r = form ''CallSid''))
         \<and> (form ''CallStatus'' \<noteq> None \<and> (\<forall>c. \<not> db_throws w c)
              \<longrightarrow> (\<exists>r. snd (webhook_POST w calls) = calls @ [r] \<and> call_tenantId r = ''default''))"
  using assms
  by (auto simp: webhook_POST_def Let_def split: option.splits)

theorem webhook_new_call_tenant_default_witness:
  "formData ringing_world = Some ringing_form
   \<and> find (\<lambda>r. twilioCallSid r = ringing_form ''CallSid'') [] = None
   \<and> ringing_form ''CallStatus'' \<noteq> None
   \<and> (\<forall>c. \<not> db_throws ringing_world c)
   \<and> (\<exists>r. snd (webhook_POST ringing_world []) = [r] \<and> call_tenantId r = ''default'')"
  using webhook_new_call_tenant_default [of ringing_world ringing_form "[]"]
  by (simp add: ringing_world_def ringing_form_def)

section \<open>Properties of the chat handler\<close>

subsection \<open>The rule-based responder\<close>

lemma default_response_nonempty: "default_response \<noteq> []"
  by (simp add: default_response_def)

lemma if_nonempty: "a \<noteq> [] \<Longrightarrow> b \<noteq> [] \<Longrightarrow> (if c then a else b) \<noteq> []"
  by simp

lemma cons_append_nonempty: "(x # xs) @ ys \<noteq> []"
  by simp

lemma getHelpfulResponse_nonempty: "getHelpfulResponse lower match query businessContext \<noteq> []"
  unfolding getHelpfulResponse_def Let_def
  by (intro if_nonempty cons_append_nonempty default_response_nonempty list.distinct(2))

subsection \<open>The fallback chain\<close>




lemma usedService_eq:
  "usedService (provider_fallback w m c) =
     (if \<not> isl (fst (groq_stage w)) then ''groq''
      else if \<not> isl (fst (ollama_stage w)) then ''ollama''
      else if \<not> isl (fst (huggingFace_stage w)) then ''huggingface''
      else if \<not> isl (fst (openai_stage w)) then ''openai''
      else ''rule-based'')"
  by (simp add: provider_fallback_def split: prod.splits sum.splits)





subsection \<open>The branches of the handler\<close>

lemma chat_POST_rejected:
  assumes "requireModuleAccess w = Inl e"
  shows "chat_POST w cache = (chat_catch e, [], cache)"
  using assms by (simp add: chat_POST_def)

lemma chat_POST_filtered:
  assumes "requireModuleAccess w = Inr (t, u)" and "request_json w = Inr body"
    and "chatSchema_parse body = Inr (m, md)" and "isPersonalQuery (w_lower w) m"
  shows "chat_POST w cache =
           (Json200 \<lparr>j_message = redirect_message, j_service = ''filtered'', j_cached = False,
                     j_usage = None, j_needsClarification = None, j_suggestedQuestions = None\<rparr>,
            [], cache)"
  using assms by (simp add: chat_POST_def)

lemma chat_POST_clarify:
  assumes "requireModuleAccess w = Inr (t, u)" and "request_json w = Inr body"
    and "chatSchema_parse body = Inr (m, md)" and "\<not> isPersonalQuery (w_lower w) m"
    and "a = analyzePromptContext w m (flags_of (fst (assemble_context w t m)))"
    and "\<not> hasEnoughContext a" and "confidence_of a = Low"
  shows "chat_POST w cache =
           (Json200 \<lparr>j_message = formatClarifyingQuestions w a,
                     j_service = ''context-analyzer'', j_cached = False, j_usage = None,
                     j_needsClarification = Some True,
                     j_suggestedQuestions = Some (suggestedQuestions a)\<rparr>,
            map DbQuery (snd (assemble_context w t m)), cache)"
  using assms by (simp add: chat_POST_def Let_def case_prod_beta)

lemma chat_POST_answer:
  assumes "requireModuleAccess w = Inr (t, u)" and "request_json w = Inr body"
    and "chatSchema_parse body = Inr (m, md)" and "\<not> isPersonalQuery (w_lower w) m"
    and "a = analyzePromptContext w m (flags_of (fst (assemble_context w t m)))"
    and "hasEnoughContext a \<or> confidence_of a \<noteq> Low"
    and "fb = provider_fallback w m (fst (assemble_context w t m))"
    and "cached = (usedService fb \<noteq> ''rule-based'' \<and> resp_message (fb_response fb) \<noteq> [])"
  shows "chat_POST w cache =
           (Json200 \<lparr>j_message = resp_message (fb_response fb), j_service = usedService fb,
                     j_cached = False, j_usage = resp_usage (fb_response fb),
                     j_needsClarification = None, j_suggestedQuestions = None\<rparr>,
            map DbQuery (snd (assemble_context w t m)) @ map ProviderCall (fb_calls fb)
            @ (if cached then [CacheSet m (resp_message (fb_response fb))] else [])
            @ [QueueAdd \<lparr>job_userId = u, job_tenantId = t, job_query = m,
                          job_response = resp_message (fb_response fb),
                          job_module = module_or_general md\<rparr>],
            if cached \<and> \<not> cache_set_throws w
            then cache(m \<mapsto> resp_message (fb_response fb)) else cache)"
  using assms by (auto simp add: chat_POST_def Let_def case_prod_beta)

lemma chat_POST_bad_json:
  assumes "requireModuleAccess w = Inr (t, u)" and "request_json w = Inl e"
  shows "chat_POST w cache = (chat_catch e, [], cache)"
  using assms by (simp add: chat_POST_def)

lemma chat_POST_invalid:
  assumes "requireModuleAccess w = Inr (t, u)" and "request_json w = Inr body"
    and "chatSchema_parse body = Inl e"
  shows "chat_POST w cache = (chat_catch e, [], cache)"
  using assms by (simp add: chat_POST_def)

subsection \<open>Case analysis on a request\<close>

lemma chat_catch_not_json: "chat_catch e \<noteq> Json200 j"
  by (simp add: chat_catch_def split: js_error.splits)

text \<open>Every request takes one of four ways through the handler.\<close>

lemma chat_POST_cases:
  obtains
    (rejected) e where "\<forall>cache. chat_POST w cache = (chat_catch e, [], cache)"
  | (filtered) t u body m md where
      "requireModuleAccess w = Inr (t, u)" "request_json w = Inr body"
      "chatSchema_parse body = Inr (m, md)" "isPersonalQuery (w_lower w) m"
  | (clarify) t u body m md where
      "requireModuleAccess w = Inr (t, u)" "request_json w = Inr body"
      "chatSchema_parse body = Inr (m, md)" "\<not> isPersonalQuery (w_lower w) m"
      "\<not> hasEnoughContext (analyzePromptContext w m (flags_of (fst (assemble_context w t m))))"
      "confidence_of (analyzePromptContext w m (flags_of (fst (assemble_context w t m)))) = Low"
  | (answer) t u body m md where
      "requireModuleAccess w = Inr (t, u)" "request_json w = Inr body"
      "chatSchema_parse body = Inr (m, md)" "\<not> isPersonalQuery (w_lower w) m"
      "hasEnoughContext (analyzePromptContext w m (flags_of (fst (assemble_context w t m))))
       \<or> confidence_of (analyzePromptContext w m (flags_of (fst (assemble_context w t m)))) \<noteq> Low"
proof (cases "requireModuleAccess w")
  case (Inl e)
  then show ?thesis using rejected chat_POST_rejected by blast
next
  case (Inr tu)
  obtain t u where tu: "requireModuleAccess w = Inr (t, u)"
    using Inr by (cases tu) simp
  show ?thesis
  proof (cases "request_json w")
    case (Inl e)
    then show ?thesis using rejected chat_POST_bad_json [OF tu] by blast
  next
    case body: (Inr body)
    show ?thesis
    proof (cases "chatSchema_parse body")
      case (Inl e)
      then show ?thesis using rejected chat_POST_invalid [OF tu body] by blast
    next
      case (Inr mm)
      obtain m md where mm: "chatSchema_parse body = Inr (m, md)"
        using Inr by (cases mm) simp
      show ?thesis
        using filtered [OF tu body mm] clarify [OF tu body mm] answer [OF tu body mm]
        by blast
    qed
  qed
qed

lemma provider_calls_append: "provider_calls (xs @ ys) = provider_calls xs @ provider_calls ys"
  by (induction xs rule: provider_calls.induct) simp_all

lemma provider_calls_DbQuery: "provider_calls (map DbQuery qs) = []"
  by (induction qs) simp_all

lemma provider_calls_ProviderCall: "provider_calls (map ProviderCall ps) = ps"
  by (induction ps) simp_all

lemma cache_writes_append: "cache_writes (xs @ ys) = cache_writes xs @ cache_writes ys"
  by (induction xs rule: cache_writes.induct) simp_all

lemma cache_writes_DbQuery: "cache_writes (map DbQuery qs) = []"
  by (induction qs) simp_all

lemma cache_writes_ProviderCall: "cache_writes (map ProviderCall ps) = []"
  by (induction ps) simp_all

lemma log_jobs_append: "log_jobs (xs @ ys) = log_jobs xs @ log_jobs ys"
  by (induction xs rule: log_jobs.induct) simp_all

lemma log_jobs_DbQuery: "log_jobs (map DbQuery qs) = []"
  by (induction qs) simp_all

lemma log_jobs_ProviderCall: "log_jobs (map ProviderCall ps) = []"
  by (induction ps) simp_all

lemmas effect_projections =
  provider_calls_append provider_calls_DbQuery provider_calls_ProviderCall
  cache_writes_append cache_writes_DbQuery cache_writes_ProviderCall
  log_jobs_append log_jobs_DbQuery log_jobs_ProviderCall


subsection \<open>Order of the fallback chain\<close>

lemmas world_defs =
  offline_world_def groq_world_def huggingFace_world_def openai_empty_world_def
  personal_world_def kelvin_world_def bad_module_world_def db_down_world_def
  empty_database_def attention_body_def personal_body_def kelvin_body_def bad_module_body_def

lemmas stage_defs =
  groq_stage_def ollama_stage_def huggingFace_stage_def openai_stage_def env_set_def

lemmas parse_defs =
  chatSchema_parse_def parse_message_def parse_context_def parse_module_def
  parse_optional_string_def member_def modules_def






subsection \<open>The responder cannot fail\<close>

lemma raised_stage: "isl (fst p) \<Longrightarrow> \<exists>e c. p = (Inl e, c)"
  by (cases p; cases "fst p") auto

lemma fb_response_rule_based:
  assumes "isl (fst (groq_stage w))" and "isl (fst (ollama_stage w))"
    and "isl (fst (huggingFace_stage w))" and "isl (fst (openai_stage w))"
  shows "fb_response (provider_fallback w m c)
           = \<lparr>resp_message = getHelpfulResponse (w_lower w) (w_match w) m c, resp_usage = None\<rparr>"
proof -
  obtain e1 c1 e2 c2 e3 c3 e4 c4 where
    "groq_stage w = (Inl e1, c1)" "ollama_stage w = (Inl e2, c2)"
    "huggingFace_stage w = (Inl e3, c3)" "openai_stage w = (Inl e4, c4)"
    using assms raised_stage by metis
  then show ?thesis by (simp add: provider_fallback_def)
qed

text \<open>
  Claim C2: for every message and every context the rule-based responder returns a
  non-empty string (it has no failing branch: each path ends in a template that starts
  with literal text); and when the Groq, Ollama, Hugging Face and OpenAI stages all
  raise, a request that reached the fallback is answered with status 200, the service
  \<open>rule-based\<close> and the responder's non-empty text.
\<close>

theorem rule_based_responder_total:
  assumes "requireModuleAccess w = Inr (t, u)" and "request_json w = Inr body"
    and "chatSchema_parse body = Inr (m, md)" and "\<not> isPersonalQuery (w_lower w) m"
    and "hasEnoughContext (analyzePromptContext w m (flags_of (fst (assemble_context w t m))))
         \<or> confidence_of (analyzePromptContext w m (flags_of (fst (assemble_context w t m)))) \<noteq> Low"
    and "isl (fst (groq_stage w))" and "isl (fst (ollama_stage w))"
    and "isl (fst (huggingFace_stage w))" and "isl (fst (openai_stage w))"
  shows "getHelpfulResponse lower match query businessContext \<noteq> []
         \<and> (\<exists>j. fst (chat_POST w cache) = Json200 j
                \<and> j_service j = ''rule-based''
                \<and> j_message j
                    = getHelpfulResponse (w_lower w) (w_match w) m (fst (assemble_context w t m))
                \<and> j_message j \<noteq> [])"
  using getHelpfulResponse_nonempty
  by (simp add: chat_POST_answer [OF assms(1-4) refl assms(5) refl refl]
        fb_response_rule_based [OF assms(6-9)] usedService_eq assms(6-9))

theorem rule_based_responder_total_witness:
  "requireModuleAccess offline_world = Inr (''t1'', ''u1'')
   \<and> request_json offline_world = Inr attention_body
   \<and> chatSchema_parse attention_body = Inr (''what needs attention'', None)
   \<and> \<not> isPersonalQuery (w_lower offline_world) ''what needs attention''
   \<and> hasEnoughContext (analyzePromptContext offline_world ''what needs attention''
         (flags_of (fst (assemble_context offline_world ''t1'' ''what needs attention''))))
   \<and> isl (fst (groq_stage offline_world)) \<and> isl (fst (ollama_stage offline_world))
   \<and> isl (fst (huggingFace_stage offline_world)) \<and> isl (fst (openai_stage offline_world))
   \<and> (\<exists>j. fst (chat_POST offline_world Map.empty) = Json200 j
          \<and> j_service j = ''rule-based'' \<and> j_message j \<noteq> [])"
proof -
  have h1: "requireModuleAccess offline_world = Inr (''t1'', ''u1'')"
    and h2: "request_json offline_world = Inr attention_body"
    by (simp_all add: offline_world_def)
  have h3: "chatSchema_parse attention_body = Inr (''what needs attention'', None)"
    by code_simp
  have h4: "\<not> isPersonalQuery (w_lower offline_world) ''what needs attention''"
    by code_simp
  have h5: "hasEnoughContext (analyzePromptContext offline_world ''what needs attention''
         (flags_of (fst (assemble_context offline_world ''t1'' ''what needs attention''))))"
    by (simp add: offline_world_def)
  have h6: "isl (fst (groq_stage offline_world))" "isl (fst (ollama_stage offline_world))"
    "isl (fst (huggingFace_stage offline_world))" "isl (fst (openai_stage offline_world))"
    by (simp_all add: stage_defs offline_world_def)
  from rule_based_responder_total
         [OF h1 h2 h3 h4 disjI1 [OF h5] h6, of "\<lambda>b r a. r" "\<lambda>re s. None" "[]" "[]" Map.empty]
  show ?thesis using h1 h2 h3 h4 h5 h6 by blast
qed

subsection \<open>The topic filter\<close>

text \<open>A body whose \<open>context.module\<close> is not one of the module names is refused with 400
  before the topic filter runs.\<close>

lemma bad_module_refused:
  "fst (chat_POST bad_module_world Map.empty) = Validation400
   \<and> fst (snd (chat_POST bad_module_world Map.empty)) = []"
  by code_simp

text \<open>
  Claim C6: for every authenticated request whose body passes the schema and whose
  message, lower-cased by the runtime, contains one of the personal keywords, the handler
  returns the canned redirect with service \<open>filtered\<close> and has no effect at all: no query
  of the context assembly, no provider call, no cache write, no job for the interaction
  log, and the cache is unchanged.
\<close>

theorem personal_query_filtered:
  assumes "requireModuleAccess w = Inr (t, u)" and "request_json w = Inr body"
    and "chatSchema_parse body = Inr (m, context)"
    and "keyword \<in> set personalKeywords"
    and "js_includes (toLowerCase (w_lower w) m) keyword"
  shows "chat_POST w cache =
           (Json200 \<lparr>j_message = redirect_message, j_service = ''filtered'', j_cached = False,
                     j_usage = None, j_needsClarification = None, j_suggestedQuestions = None\<rparr>,
            [], cache)
         \<and> provider_calls (fst (snd (chat_POST w cache))) = []
         \<and> db_queries (fst (snd (chat_POST w cache))) = []
         \<and> cache_writes (fst (snd (chat_POST w cache))) = []
         \<and> log_jobs (fst (snd (chat_POST w cache))) = []
         \<and> snd (snd (chat_POST w cache)) = cache"
proof -
  have "isPersonalQuery (w_lower w) m"
    using assms(4,5) by (auto simp: isPersonalQuery_def)
  then show ?thesis
    by (simp add: chat_POST_filtered [OF assms(1-3)])
qed

text \<open>Two instances: an ASCII message in mixed case, sent with a module, and a message
  that contains a keyword only once the runtime has lower-cased its Kelvin sign.\<close>

theorem personal_query_filtered_witness:
  "requireModuleAccess personal_world = Inr (''t1'', ''u1'')
   \<and> request_json personal_world = Inr personal_body
   \<and> chatSchema_parse personal_body
       = Inr (''How do I impress my Girlfriend?'',
              Some \<lparr>ctx_module = Some ''crm'', ctx_tenantId = None\<rparr>)
   \<and> ''girlfriend'' \<in> set personalKeywords
   \<and> js_includes (toLowerCase (w_lower personal_world) ''How do I impress my Girlfriend?'')
         ''girlfriend''
   \<and> chat_POST personal_world Map.empty =
         (Json200 \<lparr>j_message = redirect_message, j_service = ''filtered'', j_cached = False,
                   j_usage = None, j_needsClarification = None, j_suggestedQuestions = None\<rparr>,
          [], Map.empty)
   \<and> requireModuleAccess kelvin_world = Inr (''t1'', ''u1'')
   \<and> request_json kelvin_world = Inr kelvin_body
   \<and> chatSchema_parse kelvin_body = Inr (''After the BREA'' @ kelvin @ ''UP'', None)
   \<and> ''breakup'' \<in> set personalKeywords
   \<and> js_includes (toLowerCase (w_lower kelvin_world) (''After the BREA'' @ kelvin @ ''UP''))
         ''breakup''
   \<and> chat_POST kelvin_world Map.empty =
         (Json200 \<lparr>j_message = redirect_message, j_service = ''filtered'', j_cached = False,
                   j_usage = None, j_needsClarification = None, j_suggestedQuestions = None\<rparr>,
          [], Map.empty)"
proof -
  have p1: "requireModuleAccess personal_world = Inr (''t1'', ''u1'')"
    and p2: "request_json personal_world = Inr personal_body"
    by (simp_all add: world_defs)
  have p3: "chatSchema_parse personal_body
       = Inr (''How do I impress my Girlfriend?'',
              Some \<lparr>ctx_module = Some ''crm'', ctx_tenantId = None\<rparr>)"
    by code_simp
  have p4: "''girlfriend'' \<in> set personalKeywords"
    by (simp add: personalKeywords_def)
  have p5: "js_includes (toLowerCase (w_lower personal_world) ''How do I impress my Girlfriend?'')
         ''girlfriend''"
    by code_simp
  have k1: "requireModuleAccess kelvin_world = Inr (''t1'', ''u1'')"
    and k2: "request_json kelvin_world = Inr kelvin_body"
    by (simp_all add: world_defs)
  have k3: "chatSchema_parse kelvin_body = Inr (''After the BREA'' @ kelvin @ ''UP'', None)"
    by code_simp
  have k4: "''breakup'' \<in> set personalKeywords"
    by (simp add: personalKeywords_def)
  have k5: "js_includes (toLowerCase (w_lower kelvin_world) (''After the BREA'' @ kelvin @ ''UP''))
         ''breakup''"
    by code_simp
  from personal_query_filtered [OF p1 p2 p3 p4 p5, of Map.empty]
    personal_query_filtered [OF k1 k2 k3 k4 k5, of Map.empty]
  show ?thesis using p1 p2 p3 p4 p5 k1 k2 k3 k4 k5 by simp
qed

subsection \<open>The clarifying question\<close>

text \<open>
  The handler asks the clarifying question when the analysis reports both that the
  context is not enough and that the confidence is low; it then calls no provider.
\<close>

lemma clarifies_when_not_enough_and_low:
  assumes "requireModuleAccess w = Inr (t, u)" and "request_json w = Inr body"
    and "chatSchema_parse body = Inr (m, md)" and "\<not> isPersonalQuery (w_lower w) m"
    and "a = analyzePromptContext w m (flags_of (fst (assemble_context w t m)))"
    and "\<not> hasEnoughContext a" and "confidence_of a = Low"
  shows "fst (chat_POST w cache) =
           Json200 \<lparr>j_message = formatClarifyingQuestions w a,
                    j_service = ''context-analyzer'', j_cached = False, j_usage = None,
                    j_needsClarification = Some True,
                    j_suggestedQuestions = Some (suggestedQuestions a)\<rparr>
         \<and> provider_calls (fst (snd (chat_POST w cache))) = []"
  by (simp add: chat_POST_clarify [OF assms] effect_projections)

text \<open>
  Whether low confidence alone is enough depends on the analyzer, which is not part of
  these sources: for an analyzer that never reports enough context together with low
  confidence, every request of low confidence gets the clarifying question.
\<close>

lemma clarifies_when_low_for_consistent_analyzer:
  assumes "\<forall>message flags.
             confidence_of (analyzePromptContext w message flags) = Low
             \<longrightarrow> \<not> hasEnoughContext (analyzePromptContext w message flags)"
    and "requireModuleAccess w = Inr (t, u)" and "request_json w = Inr body"
    and "chatSchema_parse body = Inr (m, md)" and "\<not> isPersonalQuery (w_lower w) m"
    and "a = analyzePromptContext w m (flags_of (fst (assemble_context w t m)))"
    and "confidence_of a = Low"
  shows "fst (chat_POST w cache) =
           Json200 \<lparr>j_message = formatClarifyingQuestions w a,
                    j_service = ''context-analyzer'', j_cached = False, j_usage = None,
                    j_needsClarification = Some True,
                    j_suggestedQuestions = Some (suggestedQuestions a)\<rparr>
         \<and> provider_calls (fst (snd (chat_POST w cache))) = []"
proof -
  have "\<not> hasEnoughContext a"
    using assms(1,6,7) by blast
  then show ?thesis
    using clarifies_when_not_enough_and_low [OF assms(2-6) _ assms(7)] by blast
qed

subsection \<open>The cache\<close>

lemma usedService_cases:
  "usedService (provider_fallback w m c) = ''rule-based''
   \<or> usedService (provider_fallback w m c) \<in> set networked_services"
  by (simp add: usedService_eq networked_services_def)

lemma rule_based_not_networked: "''rule-based'' \<notin> set networked_services"
  by (simp add: networked_services_def)

lemma other_services_not_networked:
  "''filtered'' \<notin> set networked_services" "''context-analyzer'' \<notin> set networked_services"
  by (simp_all add: networked_services_def)

text \<open>
  Claim C3 (a cache write occurs exactly when the service is not the rule-based value, and
  a repeated message is answered from the cache without a provider call), as stated,
  fails on the code. The handler never reads the cache: after a first request has stored
  the answer under the message, the same request calls Groq again and reports
  \<open>cached: false\<close>. And a provider answer with empty text (here OpenAI, a choice without
  content) is returned with service \<open>openai\<close> and not written to the cache.
\<close>

theorem cache_counterexample:
  "snd (snd (chat_POST groq_world Map.empty)) ''what needs attention'' = Some ''Nothing is overdue.''
   \<and> provider_calls (fst (snd (chat_POST groq_world (snd (snd (chat_POST groq_world Map.empty))))))
       = [Groq]
   \<and> fst (chat_POST groq_world (snd (snd (chat_POST groq_world Map.empty)))) =
        Json200 \<lparr>j_message = ''Nothing is overdue.'', j_service = ''groq'', j_cached = False,
                 j_usage = None, j_needsClarification = None, j_suggestedQuestions = None\<rparr>
   \<and> fst (chat_POST openai_empty_world Map.empty) =
        Json200 \<lparr>j_message = [], j_service = ''openai'', j_cached = False,
                 j_usage = None, j_needsClarification = None, j_suggestedQuestions = None\<rparr>
   \<and> cache_writes (fst (snd (chat_POST openai_empty_world Map.empty))) = []"
  by code_simp

text \<open>
  Claim C3, amended: a cache write occurs exactly when the response is an answer of one of
  the four networked providers with a non-empty message; the write is the pair of the
  exact message string of the request and the response text, and the cache after the
  request is the cache before it with that pair stored (unchanged when the write
  throws). The cache is never read: the response and the effects of a request, its
  provider calls among them, are the same whatever the cache holds, so a second request
  with the same message runs the pipeline again; and every response of the pipeline
  reports \<open>cached: false\<close>.
\<close>

theorem cache_write_iff_provider_answer:
  "(cache_writes (fst (snd (chat_POST w cache))) \<noteq> [])
     = (\<exists>j. fst (chat_POST w cache) = Json200 j
            \<and> j_service j \<in> set networked_services \<and> j_message j \<noteq> [])
   \<and> (cache_writes (fst (snd (chat_POST w cache))) = []
       \<or> (\<exists>body m context j. request_json w = Inr body
             \<and> chatSchema_parse body = Inr (m, context)
             \<and> fst (chat_POST w cache) = Json200 j
             \<and> cache_writes (fst (snd (chat_POST w cache))) = [(m, j_message j)]))
   \<and> snd (snd (chat_POST w cache))
       = (if cache_set_throws w then cache
          else foldl (\<lambda>c (k, v). c(k \<mapsto> v)) cache (cache_writes (fst (snd (chat_POST w cache)))))
   \<and> fst (chat_POST w cache) = fst (chat_POST w cache')
   \<and> fst (snd (chat_POST w cache)) = fst (snd (chat_POST w cache'))
   \<and> provider_calls (fst (snd (chat_POST w cache)))
       = provider_calls (fst (snd (chat_POST w cache')))
   \<and> (\<forall>j. fst (chat_POST w cache) = Json200 j \<longrightarrow> j_cached j = False)"
proof (cases rule: chat_POST_cases [of w])
  case (rejected e)
  then show ?thesis by (simp add: chat_catch_not_json)
next
  case (filtered t u body m md)
  then show ?thesis
    by (simp add: chat_POST_filtered other_services_not_networked)
next
  case (clarify t u body m md)
  then show ?thesis
    by (simp add: chat_POST_clarify [OF clarify(1-4) refl] effect_projections
          other_services_not_networked)
next
  case (answer t u body m md)
  show ?thesis
    using usedService_cases [of w m "fst (assemble_context w t m)"] answer(2,3)
      rule_based_not_networked
    by (auto simp add: chat_POST_answer [OF answer(1-4) refl answer(5) refl refl]
          effect_projections)
qed

theorem cache_write_iff_provider_answer_witness:
  "cache_writes (fst (snd (chat_POST groq_world Map.empty)))
     = [(''what needs attention'', ''Nothing is overdue.'')]
   \<and> fst (chat_POST groq_world Map.empty) =
        Json200 \<lparr>j_message = ''Nothing is overdue.'', j_service = ''groq'', j_cached = False,
                 j_usage = None, j_needsClarification = None, j_suggestedQuestions = None\<rparr>
   \<and> (\<exists>j. fst (chat_POST groq_world Map.empty) = Json200 j
          \<and> j_service j \<in> set networked_services \<and> j_message j \<noteq> [] \<and> j_cached j = False)
   \<and> snd (snd (chat_POST groq_world Map.empty))
       = [''what needs attention'' \<mapsto> ''Nothing is overdue.'']
   \<and> provider_calls (fst (snd (chat_POST groq_world Map.empty)))
       = provider_calls
           (fst (snd (chat_POST groq_world [''what needs attention'' \<mapsto> ''Nothing is overdue.''])))"
proof -
  have writes: "cache_writes (fst (snd (chat_POST groq_world Map.empty)))
                  = [(''what needs attention'', ''Nothing is overdue.'')]"
    by code_simp
  have response: "fst (chat_POST groq_world Map.empty) =
        Json200 \<lparr>j_message = ''Nothing is overdue.'', j_service = ''groq'', j_cached = False,
                 j_usage = None, j_needsClarification = None, j_suggestedQuestions = None\<rparr>"
    by code_simp
  have throws: "\<not> cache_set_throws groq_world"
    by (simp add: world_defs)
  note inst =
    cache_write_iff_provider_answer
      [of groq_world Map.empty "[''what needs attention'' \<mapsto> ''Nothing is overdue.'']"]
  have calls: "provider_calls (fst (snd (chat_POST groq_world Map.empty)))
       = provider_calls
           (fst (snd (chat_POST groq_world [''what needs attention'' \<mapsto> ''Nothing is overdue.''])))"
    using inst by blast
  have "snd (snd (chat_POST groq_world Map.empty))
       = (if cache_set_throws groq_world then Map.empty
          else foldl (\<lambda>c (k, v). c(k \<mapsto> v)) Map.empty
                 (cache_writes (fst (snd (chat_POST groq_world Map.empty)))))"
    using inst by blast
  then have cache: "snd (snd (chat_POST groq_world Map.empty))
       = [''what needs attention'' \<mapsto> ''Nothing is overdue.'']"
    using writes throws by simp
  have answered: "\<exists>j. fst (chat_POST groq_world Map.empty) = Json200 j
          \<and> j_service j \<in> set networked_services \<and> j_message j \<noteq> [] \<and> j_cached j = False"
    using response by (simp add: networked_services_def)
  show ?thesis
    using writes response answered cache calls by blast
qed

subsection \<open>Context assembly\<close>

lemma getBusinessContext_never_rejects:
  "\<not> isl (fst (getBusinessContext d match render now_ms t m))"
  by (simp add: getBusinessContext_def split: prod.splits sum.splits)

lemma getBusinessContext_query_failure:
  assumes "isl (fst (context_queries d match now_ms t m))"
  shows "fst (getBusinessContext d match render now_ms t m) = Inr []"
  using assms by (auto simp: getBusinessContext_def split: prod.splits sum.splits)

lemma assemble_context_query_failure:
  assumes "isl (fst (context_queries (w_db w) (w_match w) (w_now w) t m))"
  shows "fst (assemble_context w t m) = []"
  using getBusinessContext_query_failure [OF assms, of "w_render w"]
  by (auto simp: assemble_context_def split: prod.splits sum.splits)

lemma first_query_failure:
  assumes "query_throws d (find_unique ''tenant'' [Equals ''id'' (VStr t)])"
  shows "isl (fst (context_queries d match now_ms t m))"
  using assms by (simp add: context_queries_def exec_def)

text \<open>
  The placeholder of the handler is dead code: getBusinessContext never rejects, so the
  context is what it returned.
\<close>

lemma assemble_context_eq:
  "fst (assemble_context w t m)
     = projr (fst (getBusinessContext (w_db w) (w_match w) (w_render w) (w_now w) t m))"
  using getBusinessContext_never_rejects [of "w_db w" "w_match w" "w_render w" "w_now w" t m]
  by (auto simp: assemble_context_def split: prod.splits sum.splits)

text \<open>
  The part of claim C4 that holds: a request whose context queries fail is not aborted,
  it is answered with status 200, by the clarifying question or by the fallback chain.
\<close>

lemma context_failure_not_aborted:
  assumes "requireModuleAccess w = Inr (t, u)" and "request_json w = Inr body"
    and "chatSchema_parse body = Inr (m, md)"
  shows "\<exists>j. fst (chat_POST w cache) = Json200 j"
  using assms
  by (cases "isPersonalQuery (w_lower w) m") (auto simp: chat_POST_def Let_def case_prod_beta)

text \<open>
  Claim C4 (when a query of the context assembly fails, the context is the placeholder
  \<open>Business context unavailable\<close> rather than the empty string) fails on the code: the
  \<open>catch\<close> inside getBusinessContext turns the failure into the empty string, so the
  \<open>catch\<close> of the handler that assigns the placeholder is never reached. With the tenant
  query failing, the context is empty and the request is answered by Groq.
\<close>

theorem context_failure_empty_string:
  "query_throws (w_db db_down_world) (find_unique ''tenant'' [Equals ''id'' (VStr ''t1'')])
   \<and> fst (assemble_context db_down_world ''t1'' ''what needs attention'') = []
   \<and> fst (assemble_context db_down_world ''t1'' ''what needs attention'')
       \<noteq> ''Business context unavailable. Please try again.''
   \<and> \<not> js_includes (fst (assemble_context db_down_world ''t1'' ''what needs attention''))
         ''Business context unavailable''
   \<and> fst (chat_POST db_down_world Map.empty) =
        Json200 \<lparr>j_message = ''Nothing is overdue.'', j_service = ''groq'', j_cached = False,
                 j_usage = None, j_needsClarification = None, j_suggestedQuestions = None\<rparr>"
  by code_simp


subsection \<open>Tenant isolation of the context queries\<close>

lemma set_insert_row: "set (insert_row le x ys) = insert x (set ys)"
  by (induction ys) auto

lemma set_order_rows: "set (order_rows le rows) = set rows"
  by (induction rows) (simp_all add: order_rows_def set_insert_row)

lemma run_matches:
  assumes "r \<in> set (run d q)"
  shows "r \<in> set (tables d (q_model q)) \<and> (\<forall>c \<in> set (q_where q). holds (contains_insensitive d) c r)"
proof -
  let ?matching = "filter (\<lambda>r. \<forall>c \<in> set (q_where q). holds (contains_insensitive d) c r) (tables d (q_model q))"
  have "set (run d q) \<subseteq> set ?matching"
    by (auto simp: run_def Let_def set_order_rows split: option.splits dest: in_set_takeD)
  with assms show ?thesis by auto
qed

text \<open>
  The part of claim C8 that holds: whatever the message, a contact matched by the
  context assembly carries the tenant identifier of the request, and a tenant without
  contacts gets no match.
\<close>

lemma contact_match_same_tenant:
  assumes "r \<in> set (run d (contact_query match t m))"
  shows "r ''tenantId'' = Some (VStr t)"
  using run_matches [OF assms] by (simp add: contact_query_def find_many_def)

lemma no_contacts_no_match:
  assumes "\<forall>r \<in> set (tables d ''contact''). r ''tenantId'' \<noteq> Some (VStr t)"
  shows "run d (contact_query match t m) = []"
proof (rule ccontr)
  assume "run d (contact_query match t m) \<noteq> []"
  then obtain r where r: "r \<in> set (run d (contact_query match t m))"
    by (cases "run d (contact_query match t m)") auto
  from run_matches [OF r] contact_match_same_tenant [OF r] assms show False
    by (simp add: contact_query_def find_many_def)
qed

lemma exec_queries:
  assumes "P q" and "\<And>rows. \<forall>q' \<in> set (snd (k rows)). P q'"
  shows "\<forall>q' \<in> set (snd (exec d q k)). P q'"
  using assms by (auto simp: exec_def case_prod_beta)

lemma exec_all_queries:
  assumes "\<forall>q \<in> set qs. P q" and "\<And>rows. \<forall>q' \<in> set (snd (k rows)). P q'"
  shows "\<forall>q' \<in> set (snd (exec_all d qs k)). P q'"
  using assms by (auto simp: exec_all_def case_prod_beta)

lemma contact_lookup_queries:
  assumes "P (contact_query match t m)"
    and "\<And>v. P (find_many ''deal'' [Equals ''tenantId'' (VStr t), Equals ''contactId'' v]
                  [(''createdAt'', Desc)] (Some 3))"
    and "\<And>v. P (find_many ''interaction'' [Equals ''contactId'' v]
                  [(''createdAt'', Desc)] (Some 5))"
    and "\<And>a b c. \<forall>q' \<in> set (snd (k a b c)). P q'"
  shows "\<forall>q' \<in> set (snd (contact_lookup d match t m k)). P q'"
proof (cases "m = []")
  case True
  then show ?thesis using assms(4) by (simp add: contact_lookup_def)
next
  case False
  have inner: "\<forall>q' \<in> set (snd (case contactMatches of
            [] \<Rightarrow> k None None []
          | relevantContact # _ \<Rightarrow>
              exec d (find_many ''deal''
                         [Equals ''tenantId'' (VStr t),
                          Equals ''contactId'' (row_id relevantContact)]
                         [(''createdAt'', Desc)] (Some 3)) (\<lambda>deals.
              exec d (find_many ''interaction''
                         [Equals ''contactId'' (row_id relevantContact)]
                         [(''createdAt'', Desc)] (Some 5)) (\<lambda>interactions.
              k (Some relevantContact)
                (case deals of [] \<Rightarrow> None | d # _ \<Rightarrow> Some d)
                interactions)))). P q'" for contactMatches
  proof (cases contactMatches)
    case Nil
    then show ?thesis using assms(4) by simp
  next
    case (Cons c cs)
    show ?thesis
      unfolding Cons list.case
      by (intro exec_queries assms)
  qed
  show ?thesis
    using False unfolding contact_lookup_def
    by (simp only: if_False) (intro exec_queries assms(1) inner)
qed

lemma tenant_scoped_queries:
  "filters_by_tenant t (find_unique ''tenant'' [Equals ''id'' (VStr t)])"
  "filters_by_tenant t (contact_query match t m)"
  "filters_by_tenant t (find_many model (Equals ''tenantId'' (VStr t) # conds) ord tk)"
  "\<forall>q \<in> set (count_queries t). filters_by_tenant t q"
  by (simp_all add: filters_by_tenant_def find_unique_def find_many_def contact_query_def
        count_queries_def count_query_def)

lemma interaction_model:
  "q_model (find_many ''interaction'' conds ord tk) = ''interaction''"
  by (simp add: find_many_def)

text \<open>Every query of the assembly but the one on interactions filters by the tenant.\<close>

lemma context_queries_filter_by_tenant:
  assumes "q \<in> set (snd (context_queries d match now_ms t m))"
  shows "filters_by_tenant t q \<or> q_model q = ''interaction''"
proof -
  let ?P = "\<lambda>q. filters_by_tenant t q \<or> q_model q = ''interaction''"
  have last: "\<forall>q' \<in> set (snd ((Inr x, []) :: context_data db_result)). ?P q'" for x
    by simp
  have counts: "\<forall>q \<in> set (count_queries t). ?P q"
    using tenant_scoped_queries(4) by blast
  have scoped: "?P (find_unique ''tenant'' [Equals ''id'' (VStr t)])"
    "?P (contact_query match t m)"
    "?P (find_many model (Equals ''tenantId'' (VStr t) # conds) ord tk)" for model conds ord tk
    using tenant_scoped_queries(1-3) by blast+
  have inter: "?P (find_many ''interaction'' conds ord tk)" for conds ord tk
    by (simp add: interaction_model)
  have "\<forall>q \<in> set (snd (context_queries d match now_ms t m)). ?P q"
    unfolding context_queries_def
    by (intro exec_queries exec_all_queries contact_lookup_queries last counts scoped inter)
  with assms show ?thesis by blast
qed

text \<open>
  Claim C8 (every query of the context assembly filters by the tenant of the request)
  fails on the code: the query for the past interactions of the matched contact has
  \<open>contactId\<close> as its only condition. For tenant \<open>A\<close> asking about Acme the query is
  issued, it does not filter by \<open>A\<close>, and the interaction that carries the tenant
  identifier \<open>B\<close> reaches the data of the context block.
\<close>

theorem interaction_query_not_tenant_scoped:
  "interaction_query \<in> set (snd (context_queries shared_database (\<lambda>re s. None) 0 ''A'' ''Acme''))
   \<and> \<not> filters_by_tenant ''A'' interaction_query
   \<and> (case fst (context_queries shared_database (\<lambda>re s. None) 0 ''A'' ''Acme'') of
         Inl e \<Rightarrow> []
       | Inr data \<Rightarrow> map (\<lambda>r. r ''tenantId'') (cd_interactions data))
       = [Some (VStr ''B'')]"
  by code_simp

section \<open>Properties of the usage and image handlers\<close>

text \<open>
  The part of claim C5 that holds: when the authentication collaborator throws, none of
  the three handlers runs any of its business logic.
\<close>

lemma unauthenticated_no_effects:
  "requireModuleAccess w = Inl e \<Longrightarrow> fst (snd (chat_POST w cache)) = []"
  "u_requireAIStudioAccess uw = Inl e \<Longrightarrow> snd (usage_GET uw) = []"
  "i_requireAIStudioAccess iw = Inl e \<Longrightarrow> snd (generate_image_POST iw) = []"
  by (simp_all add: chat_POST_def usage_GET_def generate_image_POST_def)

lemma usage_GET_unauthenticated:
  "u_requireAIStudioAccess uw = Inl e \<Longrightarrow> usage_status (fst (usage_GET uw)) = 500"
  by (simp add: usage_GET_def)

lemma generate_image_POST_unauthenticated:
  "i_requireAIStudioAccess iw = Inl e \<Longrightarrow> image_status (fst (generate_image_POST iw)) \<in> {400, 500}"
  by (simp add: generate_image_POST_def image_catch_def split: js_error.splits)

text \<open>
  Claim C5 (an unauthenticated or unlicensed request receives a 401/403-equivalent
  response on every endpoint, in particular on the chat, the image generation and the
  usage endpoint) fails on the code. Only the chat handler passes the license error to
  \<open>handleLicenseError\<close>; the \<open>catch\<close> of the usage handler and of the image handler answer
  500 for it.
\<close>

theorem unlicensed_request_status:
  "fst (chat_POST unlicensed_chat_world Map.empty) = LicenseErrorResponse
   \<and> usage_GET unlicensed_usage_world = (UsageFailed LicenseError, [])
   \<and> usage_status (fst (usage_GET unlicensed_usage_world)) = 500
   \<and> generate_image_POST unlicensed_image_world = (ImageFailed LicenseError, [])
   \<and> image_status (fst (generate_image_POST unlicensed_image_world)) = 500"
  by code_simp

end
